theory Spec2Isabelle
  imports Complex_Main
begin

section \<open>Tensors and minibatches of the link prediction notebook\<close>

text \<open>
  The notebooks handle one-dimensional integer tensors of (compacted) node ids. Such a
  tensor is a list of integers; \<open>torch.cat(..., dim=0)\<close> on one-dimensional tensors is
  concatenation, \<open>torch.ones_like\<close> and \<open>torch.zeros_like\<close> keep the shape and the
  integer dtype, and \<open>.float()\<close> converts every entry to a floating point number (the
  entries here are only 0 and 1, which the conversion represents exactly, so the float
  tensor is a list of reals).
\<close>

type_synonym tensor = "int list"

type_synonym float_tensor = "real list"

definition cat :: "'a list \<Rightarrow> 'a list \<Rightarrow> 'a list" where
  "cat a b = a @ b"

definition ones_like :: "tensor \<Rightarrow> tensor" where
  "ones_like t = map (\<lambda>_. 1) t"

definition zeros_like :: "tensor \<Rightarrow> tensor" where
  "zeros_like t = map (\<lambda>_. 0) t"

definition to_float :: "tensor \<Rightarrow> float_tensor" where
  "to_float t = map real_of_int t"

text \<open>
  Python exceptions that the modelled code can raise, by class name. Unpacking
  \<open>None\<close> into two names raises \<open>TypeError\<close>; indexing a list out of range raises
  \<open>IndexError\<close>.
\<close>

datatype py_error = TypeError | IndexError

text \<open>
  \<open>gb.DGLMiniBatch\<close>: the two attributes that \<open>to_binary_link_dgl_computing_pack\<close>
  reads. Each is a pair of tensors or \<open>None\<close> (the attribute's default).
\<close>

record DGLMiniBatch =
  positive_node_pairs :: "(tensor \<times> tensor) option"
  negative_node_pairs :: "(tensor \<times> tensor) option"

text \<open>
  \<^verbatim>\<open>
  def to_binary_link_dgl_computing_pack(data: gb.DGLMiniBatch):
      pos_src, pos_dst = data.positive_node_pairs
      neg_src, neg_dst = data.negative_node_pairs
      node_pairs = (
          torch.cat((pos_src, neg_src), dim=0),
          torch.cat((pos_dst, neg_dst), dim=0),
      )
      pos_label = torch.ones_like(pos_src)
      neg_label = torch.zeros_like(neg_src)
      labels = torch.cat([pos_label, neg_label], dim=0)
      return (node_pairs, labels.float())
  \<close>
\<close>

definition to_binary_link_dgl_computing_pack ::
  "DGLMiniBatch \<Rightarrow> py_error + ((tensor \<times> tensor) \<times> float_tensor)" where
  "to_binary_link_dgl_computing_pack data =
     (case positive_node_pairs data of
        None \<Rightarrow> Inl TypeError
      | Some (pos_src, pos_dst) \<Rightarrow>
          (case negative_node_pairs data of
             None \<Rightarrow> Inl TypeError
           | Some (neg_src, neg_dst) \<Rightarrow>
               (let node_pairs = (cat pos_src neg_src, cat pos_dst neg_dst);
                    pos_label = ones_like pos_src;
                    neg_label = zeros_like neg_src;
                    labels = cat pos_label neg_label
                in Inr (node_pairs, to_float labels))))"

section \<open>The GNN models of the training notebooks\<close>

text \<open>
  A layer (\<open>dglnn.SAGEConv\<close>) is a module of the external library: called on a block
  (message flow graph) and a feature tensor, it returns a feature tensor. Blocks and
  feature tensors are opaque, so their types are parameters; the library's
  \<open>SAGEConv\<close> constructor and \<open>F.relu\<close> are parameters of the functions that call them.
\<close>

type_synonym ('b, 't) layer = "'b \<Rightarrow> 't \<Rightarrow> 't"

text \<open>
  \<^verbatim>\<open>
  class SAGE(nn.Module):
      def __init__(self, in_size, hidden_size):
          super().__init__()
          self.layers = nn.ModuleList()
          self.layers.append(dglnn.SAGEConv(in_size, hidden_size, "mean"))
          self.layers.append(dglnn.SAGEConv(hidden_size, hidden_size, "mean"))
          self.hidden_size = hidden_size
          self.predictor = nn.Sequential(...)

      def forward(self, blocks, x):
          hidden_x = x
          for layer_idx, (layer, block) in enumerate(zip(self.layers, blocks)):
              hidden_x = layer(block, hidden_x)
              is_last_layer = layer_idx == len(self.layers) - 1
              if not is_last_layer:
                  hidden_x = F.relu(hidden_x)
          return hidden_x
  \<close>
  The attribute \<open>predictor\<close> is not read by \<open>forward\<close> and is left out of the record.
  The loop runs over \<open>zip(self.layers, blocks)\<close>, which stops at the shorter of the two;
  \<open>len(self.layers) - 1\<close> is computed on Python integers.
\<close>

record ('b, 't) SAGE =
  layers :: "('b, 't) layer list"
  hidden_size :: nat

definition SAGE_init ::
  "(nat \<Rightarrow> nat \<Rightarrow> string \<Rightarrow> ('b, 't) layer) \<Rightarrow> nat \<Rightarrow> nat \<Rightarrow> ('b, 't) SAGE" where
  "SAGE_init SAGEConv in_size hidden =
     \<lparr>layers = ([] @ [SAGEConv in_size hidden ''mean'']) @ [SAGEConv hidden hidden ''mean''],
      hidden_size = hidden\<rparr>"

fun SAGE_forward_loop ::
  "('t \<Rightarrow> 't) \<Rightarrow> ('b, 't) SAGE \<Rightarrow> nat \<Rightarrow> (('b, 't) layer \<times> 'b) list \<Rightarrow> 't \<Rightarrow> 't" where
  "SAGE_forward_loop relu self layer_idx [] hidden_x = hidden_x"
| "SAGE_forward_loop relu self layer_idx ((layer, block) # rest) hidden_x =
     (let hidden_x1 = layer block hidden_x;
          is_last_layer = (int layer_idx = int (length (layers self)) - 1)
      in SAGE_forward_loop relu self (Suc layer_idx) rest
           (if \<not> is_last_layer then relu hidden_x1 else hidden_x1))"

definition SAGE_forward :: "('t \<Rightarrow> 't) \<Rightarrow> ('b, 't) SAGE \<Rightarrow> 'b list \<Rightarrow> 't \<Rightarrow> 't" where
  "SAGE_forward relu self blocks x = SAGE_forward_loop relu self 0 (zip (layers self) blocks) x"

text \<open>
  \<^verbatim>\<open>
  class Model(nn.Module):
      def __init__(self, in_feats, h_feats, num_classes):
          super(Model, self).__init__()
          self.conv1 = SAGEConv(in_feats, h_feats, aggregator_type="mean")
          self.conv2 = SAGEConv(h_feats, num_classes, aggregator_type="mean")
          self.h_feats = h_feats

      def forward(self, mfgs, x):
          h = self.conv1(mfgs[0], x)
          h = F.relu(h)
          h = self.conv2(mfgs[1], h)
          return h
  \<close>
  \<open>mfgs[i]\<close> is Python list indexing: it raises \<open>IndexError\<close> out of range, and a
  negative index counts from the end.
\<close>

record ('b, 't) Model =
  conv1 :: "('b, 't) layer"
  conv2 :: "('b, 't) layer"
  h_feats :: nat

definition Model_init ::
  "(nat \<Rightarrow> nat \<Rightarrow> string \<Rightarrow> ('b, 't) layer) \<Rightarrow> nat \<Rightarrow> nat \<Rightarrow> nat \<Rightarrow> ('b, 't) Model" where
  "Model_init SAGEConv in_feats h num_classes =
     \<lparr>conv1 = SAGEConv in_feats h ''mean'', conv2 = SAGEConv h num_classes ''mean'',
      h_feats = h\<rparr>"

definition getitem :: "'a list \<Rightarrow> int \<Rightarrow> py_error + 'a" where
  "getitem xs i =
     (if 0 \<le> i \<and> i < int (length xs) then Inr (xs ! nat i)
      else if i < 0 \<and> - int (length xs) \<le> i then Inr (xs ! nat (int (length xs) + i))
      else Inl IndexError)"

definition Model_forward ::
  "('t \<Rightarrow> 't) \<Rightarrow> ('b, 't) Model \<Rightarrow> 'b list \<Rightarrow> 't \<Rightarrow> py_error + 't" where
  "Model_forward relu self mfgs x =
     (case getitem mfgs 0 of
        Inl e \<Rightarrow> Inl e
      | Inr mfg0 \<Rightarrow>
          (let h = conv1 self mfg0 x;
               h = relu h
           in case getitem mfgs 1 of
                Inl e \<Rightarrow> Inl e
              | Inr mfg1 \<Rightarrow> Inr (conv2 self mfg1 h)))"

text \<open>
  The layer-wise forward pass in the words of the specification: for \<open>i\<close> from 0 to
  \<open>k - 1\<close>, in order, the \<open>i\<close>-th layer is applied to the \<open>i\<close>-th block, and the
  activation follows every layer except the last.
\<close>

definition layer_step ::
  "('t \<Rightarrow> 't) \<Rightarrow> ('b, 't) layer list \<Rightarrow> 'b list \<Rightarrow> nat \<Rightarrow> 't \<Rightarrow> 't" where
  "layer_step act ls bs i h =
     (let y = (ls ! i) (bs ! i) h in if Suc i = length ls then y else act y)"

definition layerwise ::
  "('t \<Rightarrow> 't) \<Rightarrow> ('b, 't) layer list \<Rightarrow> 'b list \<Rightarrow> 't \<Rightarrow> 't" where
  "layerwise act ls bs x = fold (layer_step act ls bs) [0..<length ls] x"

section \<open>The import guard of the notebooks\<close>

text \<open>
  Every notebook opens with a code cell that ends in the same guard; the walkthrough
  notebook's is
  \<^verbatim>\<open>
  try:
      import dgl.graphbolt as gb
      installed = True
  except ImportError as error:
      installed = False
      print(error)
  print("DGL installed!" if installed else "DGL not found!")
  \<close>
  and the link prediction and node classification notebooks run \<open>import dgl\<close> before
  \<open>import dgl.graphbolt as gb\<close> in the \<open>try\<close> body.

  An exception is a class and the text that \<open>print\<close> shows for it. The handler
  \<open>except ImportError\<close> matches \<open>ImportError\<close> and its subclasses (such as
  \<open>ModuleNotFoundError\<close>) and nothing else.
\<close>

datatype exc_class = ImportError | ImportErrorSubclass string | OtherException string

datatype exc = Exc exc_class string

fun isinstance_ImportError :: "exc \<Rightarrow> bool" where
  "isinstance_ImportError (Exc ImportError _) = True"
| "isinstance_ImportError (Exc (ImportErrorSubclass _) _) = True"
| "isinstance_ImportError (Exc (OtherException _) _) = False"

fun str :: "exc \<Rightarrow> string" where
  "str (Exc _ msg) = msg"

text \<open>
  What an \<open>import\<close> statement does is decided outside the notebook: the importer
  gives, for a module path, whether importing it succeeds or which exception it raises.
\<close>

datatype import_result = Imported | Raised exc

type_synonym importer = "string \<Rightarrow> import_result"

text \<open>
  The state of the cell: the names bound by the imports so far, the variable
  \<open>installed\<close> (unbound at first), and the lines printed. A statement either completes
  in a new state or raises an exception in the state reached so far.
\<close>

record cell_state =
  names :: "string list"
  installed :: "bool option"
  stdout :: "string list"

type_synonym outcome = "exc \<times> cell_state + cell_state"

fun and_then :: "outcome \<Rightarrow> (cell_state \<Rightarrow> outcome) \<Rightarrow> outcome" where
  "and_then (Inl raised) f = Inl raised"
| "and_then (Inr s) f = f s"

definition import_as :: "importer \<Rightarrow> string \<Rightarrow> string \<Rightarrow> cell_state \<Rightarrow> outcome" where
  "import_as imp modname name s =
     (case imp modname of
        Raised e \<Rightarrow> Inl (e, s)
      | Imported \<Rightarrow> Inr (s\<lparr>names := names s @ [name]\<rparr>))"

definition print :: "string \<Rightarrow> cell_state \<Rightarrow> cell_state" where
  "print line s = s\<lparr>stdout := stdout s @ [line]\<rparr>"

text \<open>
  \<open>print("DGL installed!" if installed else "DGL not found!")\<close>; reading an unbound
  \<open>installed\<close> would raise \<open>NameError\<close>.
\<close>

definition print_installed :: "cell_state \<Rightarrow> outcome" where
  "print_installed s =
     (case installed s of
        None \<Rightarrow> Inl (Exc (OtherException ''NameError'') ''name 'installed' is not defined'', s)
      | Some b \<Rightarrow> Inr (print (if b then ''DGL installed!'' else ''DGL not found!'') s))"

text \<open>
  The handler \<open>except ImportError as error: installed = False; print(error)\<close> applied
  to the outcome of the \<open>try\<close> body: an exception that is no \<open>ImportError\<close>
  propagates.
\<close>

definition except_ImportError :: "outcome \<Rightarrow> outcome" where
  "except_ImportError r =
     (case r of
        Inr s \<Rightarrow> Inr s
      | Inl (error, s) \<Rightarrow>
          if isinstance_ImportError error
          then Inr (print (str error) (s\<lparr>installed := Some False\<rparr>))
          else Inl (error, s))"

definition import_guard_walkthrough :: "importer \<Rightarrow> cell_state \<Rightarrow> outcome" where
  "import_guard_walkthrough imp s =
     and_then
       (except_ImportError
          (and_then (import_as imp ''dgl.graphbolt'' ''gb'' s)
             (\<lambda>s. Inr (s\<lparr>installed := Some True\<rparr>))))
       print_installed"

definition import_guard_link_prediction :: "importer \<Rightarrow> cell_state \<Rightarrow> outcome" where
  "import_guard_link_prediction imp s =
     and_then
       (except_ImportError
          (and_then (import_as imp ''dgl'' ''dgl'' s) (\<lambda>s.
           and_then (import_as imp ''dgl.graphbolt'' ''gb'' s) (\<lambda>s.
           Inr (s\<lparr>installed := Some True\<rparr>)))))
       print_installed"

definition import_guard_node_classification :: "importer \<Rightarrow> cell_state \<Rightarrow> outcome" where
  "import_guard_node_classification imp s =
     and_then
       (except_ImportError
          (and_then (import_as imp ''dgl'' ''dgl'' s) (\<lambda>s.
           and_then (import_as imp ''dgl.graphbolt'' ''gb'' s) (\<lambda>s.
           Inr (s\<lparr>installed := Some True\<rparr>)))))
       print_installed"

section \<open>The notebooks as data\<close>

text \<open>
  The repository is three Jupyter notebooks: the GraphBolt walkthrough, the link
  prediction tutorial and the node classification tutorial (the last two stand one
  after the other in \<open>notebooks/stochastic_training/link_prediction.ipynb\<close>). A notebook is a JSON
  object with the keys \<open>nbformat\<close>, \<open>nbformat_minor\<close>, \<open>metadata\<close> and \<open>cells\<close>; a cell
  has a \<open>cell_type\<close>, a \<open>metadata.id\<close> and a \<open>source\<close>. The source of a code
  cell is Python; it is kept here as its abstract syntax, with the node names of
  Python's \<open>ast\<close> module (a line that starts with \<open>!\<close> is a shell command of the
  notebook and becomes \<open>Shell\<close>). Comments are not part of the syntax tree. The source
  of a markdown cell is prose and is left out (the empty list).

  The syntax covers the statement and expression forms that occur in the notebooks,
  and the statement forms \<open>While\<close>, \<open>Raise\<close>, \<open>Assert\<close>, \<open>Delete\<close>, \<open>Continue\<close>
  and \<open>Pass\<close>, which do not.
\<close>

datatype const = CNone | CBool bool | CInt int | CFloat string | CStr string | CEllipsis

datatype operator = Add | Sub | Mult | Div | Mod

datatype unaryop = USub | Not_op

datatype cmpop = Eq | NotEq | Lt | Gt

datatype expr =
    Name string
  | Constant const
  | Attribute expr string
  | Subscript expr expr
  | Call expr "expr list" "(string \<times> expr) list"
  | List "expr list"
  | Tuple "expr list"
  | Dict "(expr \<times> expr) list"
  | BinOp expr operator expr
  | UnaryOp unaryop expr
  | Compare expr cmpop expr
  | IfExp expr expr expr
  | JoinedStr "expr list"
  | FormattedValue expr string

text \<open>
  \<open>Call f args keywords\<close>; \<open>IfExp test body orelse\<close> is \<open>body if test else orelse\<close>;
  \<open>JoinedStr\<close> is an f-string and \<open>FormattedValue e spec\<close> one of its \<open>{e:spec}\<close>
  fields. \<open>Try body handlers orelse finalbody\<close>; \<open>ExceptHandler type name body\<close> is
  \<open>except type as name: body\<close>; \<open>With\<close> lists its context managers, each with the
  target of its \<open>as\<close> if it has one; \<open>FunctionDef name parameters body\<close> lists each
  parameter with its annotation if it has one.
\<close>

datatype stmt =
    Import string "string option"
  | ImportFrom string string
  | Assign expr expr
  | AugAssign expr operator expr
  | Expr expr
  | Shell string
  | Try "stmt list" "handler list" "stmt list" "stmt list"
  | For expr expr "stmt list"
  | While expr "stmt list"
  | With "(expr \<times> expr option) list" "stmt list"
  | FunctionDef string "(string \<times> expr option) list" "stmt list"
  | ClassDef string "expr list" "stmt list"
  | If_stmt expr "stmt list" "stmt list"
  | Return "expr option"
  | Raise "expr option"
  | Assert expr
  | Delete "expr list"
  | Break
  | Continue
  | Pass
and handler = ExceptHandler "expr option" "string option" "stmt list"

record cell =
  cell_type :: string
  cell_id :: string
  source :: "stmt list"

record notebook =
  nbformat :: int
  nbformat_minor :: int
  cells :: "cell list"

subsection \<open>The GraphBolt walkthrough notebook\<close>

text \<open>
  Cell \<open>fWiaC1WaDE-W\<close>:
  \<^verbatim>\<open>
  # Install required packages.
  import os
  import torch
  os.environ['TORCH'] = torch.__version__
  os.environ['DGLBACKEND'] = "pytorch"

  # Uncomment below to install required packages. If the CUDA version is not 11.8,
  # check the https://www.dgl.ai/pages/start.html to find the supported CUDA
  # version and corresponding command to install DGL.
  # !pip install --pre dgl -f https://data.dgl.ai/wheels-test/cu118/repo.html > /dev/null

  try:
      import dgl.graphbolt as gb
      installed = True
  except ImportError as error:
      installed = False
      print(error)
  print("DGL installed!" if installed else "DGL not found!")
  \<close>
\<close>

definition walkthrough_cell1 :: "stmt list" where
  "walkthrough_cell1 =
    [Import ''os'' None,
     Import ''torch'' None,
     Assign (Subscript (Attribute (Name ''os'') ''environ'') (Constant (CStr ''TORCH'')))
       (Attribute (Name ''torch'') ''__version__''),
     Assign
       (Subscript (Attribute (Name ''os'') ''environ'') (Constant (CStr ''DGLBACKEND'')))
       (Constant (CStr ''pytorch'')),
     Try
       [Import ''dgl.graphbolt'' (Some ''gb''),
        Assign (Name ''installed'') (Constant (CBool True))]
       [ExceptHandler (Some (Name ''ImportError'')) (Some ''error'')
          [Assign (Name ''installed'') (Constant (CBool False)),
           Expr (Call (Name ''print'') [Name ''error''] [])]] [] [],
     Expr
       (Call (Name ''print'')
          [IfExp (Name ''installed'') (Constant (CStr ''DGL installed!''))
             (Constant (CStr ''DGL not found!''))] [])]"

text \<open>
  Cell \<open>g73ZAbMQsSgV\<close>:
  \<^verbatim>\<open>
  node_pairs = torch.tensor(
      [[7, 0], [6, 0], [1, 3], [3, 3], [2, 4], [8, 4], [1, 4], [2, 4], [1, 5],
       [9, 6], [0, 6], [8, 6], [7, 7], [7, 7], [4, 7], [6, 8], [5, 8], [9, 9],
       [4, 9], [4, 9], [5, 9], [9, 9], [5, 9], [9, 9], [7, 9]]
  )
  item_set = gb.ItemSet(node_pairs, names="node_pairs")
  print(list(item_set))
  \<close>
\<close>

definition walkthrough_cell3 :: "stmt list" where
  "walkthrough_cell3 =
    [Assign (Name ''node_pairs'')
       (Call (Attribute (Name ''torch'') ''tensor'')
          [List
             [List [Constant (CInt 7), Constant (CInt 0)],
              List [Constant (CInt 6), Constant (CInt 0)],
              List [Constant (CInt 1), Constant (CInt 3)],
              List [Constant (CInt 3), Constant (CInt 3)],
              List [Constant (CInt 2), Constant (CInt 4)],
              List [Constant (CInt 8), Constant (CInt 4)],
              List [Constant (CInt 1), Constant (CInt 4)],
              List [Constant (CInt 2), Constant (CInt 4)],
              List [Constant (CInt 1), Constant (CInt 5)],
              List [Constant (CInt 9), Constant (CInt 6)],
              List [Constant (CInt 0), Constant (CInt 6)],
              List [Constant (CInt 8), Constant (CInt 6)],
              List [Constant (CInt 7), Constant (CInt 7)],
              List [Constant (CInt 7), Constant (CInt 7)],
              List [Constant (CInt 4), Constant (CInt 7)],
              List [Constant (CInt 6), Constant (CInt 8)],
              List [Constant (CInt 5), Constant (CInt 8)],
              List [Constant (CInt 9), Constant (CInt 9)],
              List [Constant (CInt 4), Constant (CInt 9)],
              List [Constant (CInt 4), Constant (CInt 9)],
              List [Constant (CInt 5), Constant (CInt 9)],
              List [Constant (CInt 9), Constant (CInt 9)],
              List [Constant (CInt 5), Constant (CInt 9)],
              List [Constant (CInt 9), Constant (CInt 9)],
              List [Constant (CInt 7), Constant (CInt 9)]]] []),
     Assign (Name ''item_set'')
       (Call (Attribute (Name ''gb'') ''ItemSet'') [Name ''node_pairs'']
          [(''names'', Constant (CStr ''node_pairs''))]),
     Expr (Call (Name ''print'') [Call (Name ''list'') [Name ''item_set''] []] [])]"

text \<open>
  Cell \<open>jDjY149xs3PI\<close>:
  \<^verbatim>\<open>
  indptr = torch.tensor([0, 2, 2, 2, 4, 8, 9, 12, 15, 17, 25])
  indices = torch.tensor(
      [7, 6, 1, 3, 2, 8, 1, 2, 1, 9, 0, 8, 7, 7, 4, 6, 5, 9, 4, 4, 5, 9, 5, 9, 7]
  )
  num_edges = 25
  eid = torch.arange(num_edges)
  edge_attributes = {gb.ORIGINAL_EDGE_ID: eid}
  graph = gb.from_fused_csc(indptr, indices, None, None, edge_attributes, None)
  print(graph)
  \<close>
\<close>

definition walkthrough_cell5 :: "stmt list" where
  "walkthrough_cell5 =
    [Assign (Name ''indptr'')
       (Call (Attribute (Name ''torch'') ''tensor'')
          [List
             [Constant (CInt 0), Constant (CInt 2), Constant (CInt 2), Constant (CInt 2),
              Constant (CInt 4), Constant (CInt 8), Constant (CInt 9), Constant (CInt 12),
              Constant (CInt 15), Constant (CInt 17), Constant (CInt 25)]] []),
     Assign (Name ''indices'')
       (Call (Attribute (Name ''torch'') ''tensor'')
          [List
             [Constant (CInt 7), Constant (CInt 6), Constant (CInt 1), Constant (CInt 3),
              Constant (CInt 2), Constant (CInt 8), Constant (CInt 1), Constant (CInt 2),
              Constant (CInt 1), Constant (CInt 9), Constant (CInt 0), Constant (CInt 8),
              Constant (CInt 7), Constant (CInt 7), Constant (CInt 4), Constant (CInt 6),
              Constant (CInt 5), Constant (CInt 9), Constant (CInt 4), Constant (CInt 4),
              Constant (CInt 5), Constant (CInt 9), Constant (CInt 5), Constant (CInt 9),
              Constant (CInt 7)]] []),
     Assign (Name ''num_edges'') (Constant (CInt 25)),
     Assign (Name ''eid'')
       (Call (Attribute (Name ''torch'') ''arange'') [Name ''num_edges''] []),
     Assign (Name ''edge_attributes'')
       (Dict [(Attribute (Name ''gb'') ''ORIGINAL_EDGE_ID'', Name ''eid'')]),
     Assign (Name ''graph'')
       (Call (Attribute (Name ''gb'') ''from_fused_csc'')
          [Name ''indptr'', Name ''indices'', Constant CNone, Constant CNone,
           Name ''edge_attributes'', Constant CNone] []),
     Expr (Call (Name ''print'') [Name ''graph''] [])]"

text \<open>
  Cell \<open>zIU6KWe1Sm2g\<close>:
  \<^verbatim>\<open>
  num_nodes = 10
  num_edges = 25
  node_feature_data = torch.rand((num_nodes, 2))
  edge_feature_data = torch.rand((num_edges, 3))
  node_feature = gb.TorchBasedFeature(node_feature_data)
  edge_feature = gb.TorchBasedFeature(edge_feature_data)
  features = {
      ("node", None, "feat") : node_feature,
      ("edge", None, "feat") : edge_feature,
  }
  feature_store = gb.BasicFeatureStore(features)
  print(feature_store)
  \<close>
\<close>

definition walkthrough_cell7 :: "stmt list" where
  "walkthrough_cell7 =
    [Assign (Name ''num_nodes'') (Constant (CInt 10)),
     Assign (Name ''num_edges'') (Constant (CInt 25)),
     Assign (Name ''node_feature_data'')
       (Call (Attribute (Name ''torch'') ''rand'')
          [Tuple [Name ''num_nodes'', Constant (CInt 2)]] []),
     Assign (Name ''edge_feature_data'')
       (Call (Attribute (Name ''torch'') ''rand'')
          [Tuple [Name ''num_edges'', Constant (CInt 3)]] []),
     Assign (Name ''node_feature'')
       (Call (Attribute (Name ''gb'') ''TorchBasedFeature'') [Name ''node_feature_data'']
          []),
     Assign (Name ''edge_feature'')
       (Call (Attribute (Name ''gb'') ''TorchBasedFeature'') [Name ''edge_feature_data'']
          []),
     Assign (Name ''features'')
       (Dict
          [(Tuple [Constant (CStr ''node''), Constant CNone, Constant (CStr ''feat'')],
            Name ''node_feature''),
           (Tuple [Constant (CStr ''edge''), Constant CNone, Constant (CStr ''feat'')],
            Name ''edge_feature'')]),
     Assign (Name ''feature_store'')
       (Call (Attribute (Name ''gb'') ''BasicFeatureStore'') [Name ''features''] []),
     Expr (Call (Name ''print'') [Name ''feature_store''] [])]"

text \<open>
  Cell \<open>XtqPDprrogR7\<close>:
  \<^verbatim>\<open>
  datapipe = gb.ItemSampler(item_set, batch_size=3, shuffle=False)
  print(next(iter(datapipe)))
  \<close>
\<close>

definition walkthrough_cell9 :: "stmt list" where
  "walkthrough_cell9 =
    [Assign (Name ''datapipe'')
       (Call (Attribute (Name ''gb'') ''ItemSampler'') [Name ''item_set'']
          [(''batch_size'', Constant (CInt 3)), (''shuffle'', Constant (CBool False))]),
     Expr
       (Call (Name ''print'')
          [Call (Name ''next'') [Call (Name ''iter'') [Name ''datapipe''] []] []] [])]"

text \<open>
  Cell \<open>PrFpGoOGopJy\<close>:
  \<^verbatim>\<open>
  datapipe = datapipe.sample_uniform_negative(graph, 1)
  print(next(iter(datapipe)))
  \<close>
\<close>

definition walkthrough_cell11 :: "stmt list" where
  "walkthrough_cell11 =
    [Assign (Name ''datapipe'')
       (Call (Attribute (Name ''datapipe'') ''sample_uniform_negative'')
          [Name ''graph'', Constant (CInt 1)] []),
     Expr
       (Call (Name ''print'')
          [Call (Name ''next'') [Call (Name ''iter'') [Name ''datapipe''] []] []] [])]"

text \<open>
  Cell \<open>4UsY3PL3ppYV\<close>:
  \<^verbatim>\<open>
  fanouts = torch.tensor([1])
  datapipe = datapipe.sample_neighbor(graph, [fanouts])
  print(next(iter(datapipe)))
  \<close>
\<close>

definition walkthrough_cell13 :: "stmt list" where
  "walkthrough_cell13 =
    [Assign (Name ''fanouts'')
       (Call (Attribute (Name ''torch'') ''tensor'') [List [Constant (CInt 1)]] []),
     Assign (Name ''datapipe'')
       (Call (Attribute (Name ''datapipe'') ''sample_neighbor'')
          [Name ''graph'', List [Name ''fanouts'']] []),
     Expr
       (Call (Name ''print'')
          [Call (Name ''next'') [Call (Name ''iter'') [Name ''datapipe''] []] []] [])]"

text \<open>
  Cell \<open>YAj8G7YBqO6G\<close>:
  \<^verbatim>\<open>
  datapipe = datapipe.fetch_feature(feature_store, node_feature_keys=["feat"], edge_feature_keys=["feat"])
  print(next(iter(datapipe)))
  \<close>
\<close>

definition walkthrough_cell15 :: "stmt list" where
  "walkthrough_cell15 =
    [Assign (Name ''datapipe'')
       (Call (Attribute (Name ''datapipe'') ''fetch_feature'') [Name ''feature_store'']
          [(''node_feature_keys'', List [Constant (CStr ''feat'')]),
           (''edge_feature_keys'', List [Constant (CStr ''feat'')])]),
     Expr
       (Call (Name ''print'')
          [Call (Name ''next'') [Call (Name ''iter'') [Name ''datapipe''] []] []] [])]"

text \<open>
  Cell \<open>o8Yoi8BeqSdu\<close>:
  \<^verbatim>\<open>
  datapipe = datapipe.to_dgl()
  print(next(iter(datapipe)))
  \<close>
\<close>

definition walkthrough_cell17 :: "stmt list" where
  "walkthrough_cell17 =
    [Assign (Name ''datapipe'') (Call (Attribute (Name ''datapipe'') ''to_dgl'') [] []),
     Expr
       (Call (Name ''print'')
          [Call (Name ''next'') [Call (Name ''iter'') [Name ''datapipe''] []] []] [])]"

text \<open>
  Cell \<open>RofiZOUMqt_u\<close>:
  \<^verbatim>\<open>
  datapipe = datapipe.copy_to(device="cuda")
  print(next(iter(datapipe)))
  \<close>
\<close>

definition walkthrough_cell19 :: "stmt list" where
  "walkthrough_cell19 =
    [Assign (Name ''datapipe'')
       (Call (Attribute (Name ''datapipe'') ''copy_to'') []
          [(''device'', Constant (CStr ''cuda''))]),
     Expr
       (Call (Name ''print'')
          [Call (Name ''next'') [Call (Name ''iter'') [Name ''datapipe''] []] []] [])]"

text \<open>
  Cell \<open>YV-mk-xAv78v\<close>:
  \<^verbatim>\<open>
  # Dataset for node classification.
  num_nodes = 10
  nodes = torch.arange(num_nodes)
  labels = torch.tensor([1, 2, 0, 2, 2, 0, 2, 2, 2, 2])
  item_set = gb.ItemSet((nodes, labels), names=("seed_nodes", "labels"))

  indptr = torch.tensor([0, 2, 2, 2, 4, 8, 9, 12, 15, 17, 25])
  indices = torch.tensor(
      [7, 6, 1, 3, 2, 8, 1, 2, 1, 9, 0, 8, 7, 7, 4, 6, 5, 9, 4, 4, 5, 9, 5, 9, 7]
  )
  eid = torch.tensor([0, 1, 2, 3, 4, 5, 6, 7, 8, 9, 10, 11, 12, 13,
                      14, 15, 16, 17, 18, 19, 20, 21, 22, 23, 24])
  edge_attributes = {gb.ORIGINAL_EDGE_ID: eid}
  graph = gb.from_fused_csc(indptr, indices, None, None, edge_attributes, None)

  num_nodes = 10
  num_edges = 25
  node_feature_data = torch.rand((num_nodes, 2))
  edge_feature_data = torch.rand((num_edges, 3))
  node_feature = gb.TorchBasedFeature(node_feature_data)
  edge_feature = gb.TorchBasedFeature(edge_feature_data)
  features = {
      ("node", None, "feat") : node_feature,
      ("edge", None, "feat") : edge_feature,
  }
  feature_store = gb.BasicFeatureStore(features)

  # Datapipe.
  ...
  print(next(iter(datapipe)))
  \<close>
\<close>

definition walkthrough_cell21 :: "stmt list" where
  "walkthrough_cell21 =
    [Assign (Name ''num_nodes'') (Constant (CInt 10)),
     Assign (Name ''nodes'')
       (Call (Attribute (Name ''torch'') ''arange'') [Name ''num_nodes''] []),
     Assign (Name ''labels'')
       (Call (Attribute (Name ''torch'') ''tensor'')
          [List
             [Constant (CInt 1), Constant (CInt 2), Constant (CInt 0), Constant (CInt 2),
              Constant (CInt 2), Constant (CInt 0), Constant (CInt 2), Constant (CInt 2),
              Constant (CInt 2), Constant (CInt 2)]] []),
     Assign (Name ''item_set'')
       (Call (Attribute (Name ''gb'') ''ItemSet'')
          [Tuple [Name ''nodes'', Name ''labels'']]
          [(''names'',
            Tuple [Constant (CStr ''seed_nodes''), Constant (CStr ''labels'')])]),
     Assign (Name ''indptr'')
       (Call (Attribute (Name ''torch'') ''tensor'')
          [List
             [Constant (CInt 0), Constant (CInt 2), Constant (CInt 2), Constant (CInt 2),
              Constant (CInt 4), Constant (CInt 8), Constant (CInt 9), Constant (CInt 12),
              Constant (CInt 15), Constant (CInt 17), Constant (CInt 25)]] []),
     Assign (Name ''indices'')
       (Call (Attribute (Name ''torch'') ''tensor'')
          [List
             [Constant (CInt 7), Constant (CInt 6), Constant (CInt 1), Constant (CInt 3),
              Constant (CInt 2), Constant (CInt 8), Constant (CInt 1), Constant (CInt 2),
              Constant (CInt 1), Constant (CInt 9), Constant (CInt 0), Constant (CInt 8),
              Constant (CInt 7), Constant (CInt 7), Constant (CInt 4), Constant (CInt 6),
              Constant (CInt 5), Constant (CInt 9), Constant (CInt 4), Constant (CInt 4),
              Constant (CInt 5), Constant (CInt 9), Constant (CInt 5), Constant (CInt 9),
              Constant (CInt 7)]] []),
     Assign (Name ''eid'')
       (Call (Attribute (Name ''torch'') ''tensor'')
          [List
             [Constant (CInt 0), Constant (CInt 1), Constant (CInt 2), Constant (CInt 3),
              Constant (CInt 4), Constant (CInt 5), Constant (CInt 6), Constant (CInt 7),
              Constant (CInt 8), Constant (CInt 9), Constant (CInt 10),
              Constant (CInt 11), Constant (CInt 12), Constant (CInt 13),
              Constant (CInt 14), Constant (CInt 15), Constant (CInt 16),
              Constant (CInt 17), Constant (CInt 18), Constant (CInt 19),
              Constant (CInt 20), Constant (CInt 21), Constant (CInt 22),
              Constant (CInt 23), Constant (CInt 24)]] []),
     Assign (Name ''edge_attributes'')
       (Dict [(Attribute (Name ''gb'') ''ORIGINAL_EDGE_ID'', Name ''eid'')]),
     Assign (Name ''graph'')
       (Call (Attribute (Name ''gb'') ''from_fused_csc'')
          [Name ''indptr'', Name ''indices'', Constant CNone, Constant CNone,
           Name ''edge_attributes'', Constant CNone] []),
     Assign (Name ''num_nodes'') (Constant (CInt 10)),
     Assign (Name ''num_edges'') (Constant (CInt 25)),
     Assign (Name ''node_feature_data'')
       (Call (Attribute (Name ''torch'') ''rand'')
          [Tuple [Name ''num_nodes'', Constant (CInt 2)]] []),
     Assign (Name ''edge_feature_data'')
       (Call (Attribute (Name ''torch'') ''rand'')
          [Tuple [Name ''num_edges'', Constant (CInt 3)]] []),
     Assign (Name ''node_feature'')
       (Call (Attribute (Name ''gb'') ''TorchBasedFeature'') [Name ''node_feature_data'']
          []),
     Assign (Name ''edge_feature'')
       (Call (Attribute (Name ''gb'') ''TorchBasedFeature'') [Name ''edge_feature_data'']
          []),
     Assign (Name ''features'')
       (Dict
          [(Tuple [Constant (CStr ''node''), Constant CNone, Constant (CStr ''feat'')],
            Name ''node_feature''),
           (Tuple [Constant (CStr ''edge''), Constant CNone, Constant (CStr ''feat'')],
            Name ''edge_feature'')]),
     Assign (Name ''feature_store'')
       (Call (Attribute (Name ''gb'') ''BasicFeatureStore'') [Name ''features''] []),
     Expr (Constant CEllipsis),
     Expr
       (Call (Name ''print'')
          [Call (Name ''next'') [Call (Name ''iter'') [Name ''datapipe''] []] []] [])]"

definition walkthrough :: notebook where
  "walkthrough =
    \<lparr>nbformat = 4, nbformat_minor = 0,
     cells =
      [\<lparr>cell_type = ''markdown'', cell_id = ''e1qfiZMOJYYv'', source = []\<rparr>,
       \<lparr>cell_type = ''code'', cell_id = ''fWiaC1WaDE-W'',
        source = walkthrough_cell1\<rparr>,
       \<lparr>cell_type = ''markdown'', cell_id = ''8O7PfsY4sPoN'', source = []\<rparr>,
       \<lparr>cell_type = ''code'', cell_id = ''g73ZAbMQsSgV'',
        source = walkthrough_cell3\<rparr>,
       \<lparr>cell_type = ''markdown'', cell_id = ''Lqty9p4cs0OR'', source = []\<rparr>,
       \<lparr>cell_type = ''code'', cell_id = ''jDjY149xs3PI'',
        source = walkthrough_cell5\<rparr>,
       \<lparr>cell_type = ''markdown'', cell_id = ''mNp2S2_Vs8af'', source = []\<rparr>,
       \<lparr>cell_type = ''code'', cell_id = ''zIU6KWe1Sm2g'',
        source = walkthrough_cell7\<rparr>,
       \<lparr>cell_type = ''markdown'', cell_id = ''Oh2ockWWoXQ0'', source = []\<rparr>,
       \<lparr>cell_type = ''code'', cell_id = ''XtqPDprrogR7'',
        source = walkthrough_cell9\<rparr>,
       \<lparr>cell_type = ''markdown'', cell_id = ''BjkAK37xopp1'', source = []\<rparr>,
       \<lparr>cell_type = ''code'', cell_id = ''PrFpGoOGopJy'',
        source = walkthrough_cell11\<rparr>,
       \<lparr>cell_type = ''markdown'', cell_id = ''fYO_oIwkpmb3'', source = []\<rparr>,
       \<lparr>cell_type = ''code'', cell_id = ''4UsY3PL3ppYV'',
        source = walkthrough_cell13\<rparr>,
       \<lparr>cell_type = ''markdown'', cell_id = ''0uIydsjUqMA0'', source = []\<rparr>,
       \<lparr>cell_type = ''code'', cell_id = ''YAj8G7YBqO6G'',
        source = walkthrough_cell15\<rparr>,
       \<lparr>cell_type = ''markdown'', cell_id = ''Gt059n1xrmj-'', source = []\<rparr>,
       \<lparr>cell_type = ''code'', cell_id = ''o8Yoi8BeqSdu'',
        source = walkthrough_cell17\<rparr>,
       \<lparr>cell_type = ''markdown'', cell_id = ''hjBSLPRPrsD2'', source = []\<rparr>,
       \<lparr>cell_type = ''code'', cell_id = ''RofiZOUMqt_u'',
        source = walkthrough_cell19\<rparr>,
       \<lparr>cell_type = ''markdown'', cell_id = ''xm9HnyHRvxXj'', source = []\<rparr>,
       \<lparr>cell_type = ''code'', cell_id = ''YV-mk-xAv78v'',
        source = walkthrough_cell21\<rparr>]\<rparr>"

subsection \<open>The link prediction notebook\<close>

text \<open>
  Cell \<open>QcpjTazg6hEo\<close>:
  \<^verbatim>\<open>
  # Install required packages.
  import os
  import torch
  import numpy as np
  os.environ['TORCH'] = torch.__version__
  os.environ['DGLBACKEND'] = "pytorch"

  # Install the CPU version.
  device = torch.device("cpu")
  !pip install --pre dgl -f https://data.dgl.ai/wheels-test/repo.html

  try:
      import dgl
      import dgl.graphbolt as gb
      installed = True
  except ImportError as error:
      installed = False
      print(error)
  print("DGL installed!" if installed else "DGL not found!")
  \<close>
\<close>

definition link_prediction_cell2 :: "stmt list" where
  "link_prediction_cell2 =
    [Import ''os'' None,
     Import ''torch'' None,
     Import ''numpy'' (Some ''np''),
     Assign (Subscript (Attribute (Name ''os'') ''environ'') (Constant (CStr ''TORCH'')))
       (Attribute (Name ''torch'') ''__version__''),
     Assign
       (Subscript (Attribute (Name ''os'') ''environ'') (Constant (CStr ''DGLBACKEND'')))
       (Constant (CStr ''pytorch'')),
     Assign (Name ''device'')
       (Call (Attribute (Name ''torch'') ''device'') [Constant (CStr ''cpu'')] []),
     Shell ''pip install --pre dgl -f https://data.dgl.ai/wheels-test/repo.html'',
     Try
       [Import ''dgl'' None,
        Import ''dgl.graphbolt'' (Some ''gb''),
        Assign (Name ''installed'') (Constant (CBool True))]
       [ExceptHandler (Some (Name ''ImportError'')) (Some ''error'')
          [Assign (Name ''installed'') (Constant (CBool False)),
           Expr (Call (Name ''print'') [Name ''error''] [])]] [] [],
     Expr
       (Call (Name ''print'')
          [IfExp (Name ''installed'') (Constant (CStr ''DGL installed!''))
             (Constant (CStr ''DGL not found!''))] [])]"

text \<open>
  Cell \<open>RnJkkSKhWiUG\<close>:
  \<^verbatim>\<open>
  dataset = gb.BuiltinDataset("cora").load()
  \<close>
\<close>

definition link_prediction_cell4 :: "stmt list" where
  "link_prediction_cell4 =
    [Assign (Name ''dataset'')
       (Call
          (Attribute
             (Call (Attribute (Name ''gb'') ''BuiltinDataset'') [Constant (CStr ''cora'')]
                []) ''load'') [] [])]"

text \<open>
  Cell \<open>YCm8CGkOX9lK\<close>:
  \<^verbatim>\<open>
  graph = dataset.graph
  feature = dataset.feature
  train_set = dataset.tasks[1].train_set
  test_set = dataset.tasks[1].test_set
  task_name = dataset.tasks[1].metadata["name"]
  print(f"Task: {task_name}.")
  \<close>
\<close>

definition link_prediction_cell6 :: "stmt list" where
  "link_prediction_cell6 =
    [Assign (Name ''graph'') (Attribute (Name ''dataset'') ''graph''),
     Assign (Name ''feature'') (Attribute (Name ''dataset'') ''feature''),
     Assign (Name ''train_set'')
       (Attribute (Subscript (Attribute (Name ''dataset'') ''tasks'') (Constant (CInt 1)))
          ''train_set''),
     Assign (Name ''test_set'')
       (Attribute (Subscript (Attribute (Name ''dataset'') ''tasks'') (Constant (CInt 1)))
          ''test_set''),
     Assign (Name ''task_name'')
       (Subscript
          (Attribute
             (Subscript (Attribute (Name ''dataset'') ''tasks'') (Constant (CInt 1)))
             ''metadata'') (Constant (CStr ''name''))),
     Expr
       (Call (Name ''print'')
          [JoinedStr
             [Constant (CStr ''Task: ''), FormattedValue (Name ''task_name'') [],
              Constant (CStr ''.'')]] [])]"

text \<open>
  Cell \<open>LZgXGfBvYijJ\<close>:
  \<^verbatim>\<open>
  datapipe = gb.ItemSampler(train_set, batch_size=256, shuffle=True)
  datapipe = datapipe.sample_uniform_negative(graph, 5)
  datapipe = datapipe.sample_neighbor(graph, [5, 5, 5])
  datapipe = datapipe.fetch_feature(feature, node_feature_keys=["feat"])
  datapipe = datapipe.to_dgl()
  datapipe = datapipe.copy_to(device)
  train_dataloader = gb.MultiProcessDataLoader(datapipe, num_workers=0)
  \<close>
\<close>

definition link_prediction_cell8 :: "stmt list" where
  "link_prediction_cell8 =
    [Assign (Name ''datapipe'')
       (Call (Attribute (Name ''gb'') ''ItemSampler'') [Name ''train_set'']
          [(''batch_size'', Constant (CInt 256)), (''shuffle'', Constant (CBool True))]),
     Assign (Name ''datapipe'')
       (Call (Attribute (Name ''datapipe'') ''sample_uniform_negative'')
          [Name ''graph'', Constant (CInt 5)] []),
     Assign (Name ''datapipe'')
       (Call (Attribute (Name ''datapipe'') ''sample_neighbor'')
          [Name ''graph'', List [Constant (CInt 5), Constant (CInt 5), Constant (CInt 5)]]
          []),
     Assign (Name ''datapipe'')
       (Call (Attribute (Name ''datapipe'') ''fetch_feature'') [Name ''feature'']
          [(''node_feature_keys'', List [Constant (CStr ''feat'')])]),
     Assign (Name ''datapipe'') (Call (Attribute (Name ''datapipe'') ''to_dgl'') [] []),
     Assign (Name ''datapipe'')
       (Call (Attribute (Name ''datapipe'') ''copy_to'') [Name ''device''] []),
     Assign (Name ''train_dataloader'')
       (Call (Attribute (Name ''gb'') ''MultiProcessDataLoader'') [Name ''datapipe'']
          [(''num_workers'', Constant (CInt 0))])]"

text \<open>
  Cell \<open>euEdzmerYmZi\<close>:
  \<^verbatim>\<open>
  data = next(iter(train_dataloader))
  print(f"DGLMiniBatch: {data}")
  \<close>
\<close>

definition link_prediction_cell10 :: "stmt list" where
  "link_prediction_cell10 =
    [Assign (Name ''data'')
       (Call (Name ''next'') [Call (Name ''iter'') [Name ''train_dataloader''] []] []),
     Expr
       (Call (Name ''print'')
          [JoinedStr
             [Constant (CStr ''DGLMiniBatch: ''), FormattedValue (Name ''data'') []]]
          [])]"

text \<open>
  Cell \<open>0qQbBwO7Y3-Q\<close>:
  \<^verbatim>\<open>
  import dgl.nn as dglnn
  import torch.nn as nn
  import torch.nn.functional as F


  class SAGE(nn.Module):
      def __init__(self, in_size, hidden_size):
          super().__init__()
          self.layers = nn.ModuleList()
          self.layers.append(dglnn.SAGEConv(in_size, hidden_size, "mean"))
          self.layers.append(dglnn.SAGEConv(hidden_size, hidden_size, "mean"))
          self.hidden_size = hidden_size
          self.predictor = nn.Sequential(
              nn.Linear(hidden_size, hidden_size),
              nn.ReLU(),
              nn.Linear(hidden_size, 1),
          )

      def forward(self, blocks, x):
          hidden_x = x
          for layer_idx, (layer, block) in enumerate(zip(self.layers, blocks)):
              hidden_x = layer(block, hidden_x)
              is_last_layer = layer_idx == len(self.layers) - 1
              if not is_last_layer:
                  hidden_x = F.relu(hidden_x)
          return hidden_x
  \<close>
\<close>

definition link_prediction_cell12 :: "stmt list" where
  "link_prediction_cell12 =
    [Import ''dgl.nn'' (Some ''dglnn''),
     Import ''torch.nn'' (Some ''nn''),
     Import ''torch.nn.functional'' (Some ''F''),
     ClassDef ''SAGE'' [Attribute (Name ''nn'') ''Module'']
       [FunctionDef ''__init__''
          [(''self'', None), (''in_size'', None), (''hidden_size'', None)]
          [Expr (Call (Attribute (Call (Name ''super'') [] []) ''__init__'') [] []),
           Assign (Attribute (Name ''self'') ''layers'')
             (Call (Attribute (Name ''nn'') ''ModuleList'') [] []),
           Expr
             (Call (Attribute (Attribute (Name ''self'') ''layers'') ''append'')
                [Call (Attribute (Name ''dglnn'') ''SAGEConv'')
                   [Name ''in_size'', Name ''hidden_size'', Constant (CStr ''mean'')] []]
                []),
           Expr
             (Call (Attribute (Attribute (Name ''self'') ''layers'') ''append'')
                [Call (Attribute (Name ''dglnn'') ''SAGEConv'')
                   [Name ''hidden_size'', Name ''hidden_size'', Constant (CStr ''mean'')]
                   []] []),
           Assign (Attribute (Name ''self'') ''hidden_size'') (Name ''hidden_size''),
           Assign (Attribute (Name ''self'') ''predictor'')
             (Call (Attribute (Name ''nn'') ''Sequential'')
                [Call (Attribute (Name ''nn'') ''Linear'')
                   [Name ''hidden_size'', Name ''hidden_size''] [],
                 Call (Attribute (Name ''nn'') ''ReLU'') [] [],
                 Call (Attribute (Name ''nn'') ''Linear'')
                   [Name ''hidden_size'', Constant (CInt 1)] []] [])],
        FunctionDef ''forward'' [(''self'', None), (''blocks'', None), (''x'', None)]
          [Assign (Name ''hidden_x'') (Name ''x''),
           For (Tuple [Name ''layer_idx'', Tuple [Name ''layer'', Name ''block'']])
             (Call (Name ''enumerate'')
                [Call (Name ''zip'')
                   [Attribute (Name ''self'') ''layers'', Name ''blocks''] []]
                [])
             [Assign (Name ''hidden_x'')
                (Call (Name ''layer'') [Name ''block'', Name ''hidden_x''] []),
              Assign (Name ''is_last_layer'')
                (Compare (Name ''layer_idx'') Eq
                   (BinOp (Call (Name ''len'') [Attribute (Name ''self'') ''layers''] [])
                      Sub (Constant (CInt 1)))),
              If_stmt (UnaryOp Not_op (Name ''is_last_layer''))
                [Assign (Name ''hidden_x'')
                   (Call (Attribute (Name ''F'') ''relu'') [Name ''hidden_x''] [])]
                []],
           Return (Some (Name ''hidden_x''))]]]"

text \<open>
  Cell \<open>omSIB_ePZACg\<close>:
  \<^verbatim>\<open>
  in_size = feature.size("node", None, "feat")[0]
  model = SAGE(in_size, 128).to(device)
  optimizer = torch.optim.Adam(model.parameters(), lr=0.001)
  \<close>
\<close>

definition link_prediction_cell14 :: "stmt list" where
  "link_prediction_cell14 =
    [Assign (Name ''in_size'')
       (Subscript
          (Call (Attribute (Name ''feature'') ''size'')
             [Constant (CStr ''node''), Constant CNone, Constant (CStr ''feat'')] [])
          (Constant (CInt 0))),
     Assign (Name ''model'')
       (Call
          (Attribute (Call (Name ''SAGE'') [Name ''in_size'', Constant (CInt 128)] [])
             ''to'') [Name ''device''] []),
     Assign (Name ''optimizer'')
       (Call (Attribute (Attribute (Name ''torch'') ''optim'') ''Adam'')
          [Call (Attribute (Name ''model'') ''parameters'') [] []]
          [(''lr'', Constant (CFloat ''0.001''))])]"

text \<open>
  Cell \<open>wvIJBPb7ZNUv\<close>:
  \<^verbatim>\<open>
  def to_binary_link_dgl_computing_pack(data: gb.DGLMiniBatch):
      """Convert the minibatch to a training pair and a label tensor."""
      pos_src, pos_dst = data.positive_node_pairs
      neg_src, neg_dst = data.negative_node_pairs
      node_pairs = (
          torch.cat((pos_src, neg_src), dim=0),
          torch.cat((pos_dst, neg_dst), dim=0),
      )
      pos_label = torch.ones_like(pos_src)
      neg_label = torch.zeros_like(neg_src)
      labels = torch.cat([pos_label, neg_label], dim=0)
      return (node_pairs, labels.float())
  \<close>
\<close>

definition link_prediction_cell16 :: "stmt list" where
  "link_prediction_cell16 =
    [FunctionDef ''to_binary_link_dgl_computing_pack''
       [(''data'', Some (Attribute (Name ''gb'') ''DGLMiniBatch''))]
       [Expr
          (Constant
             (CStr ''Convert the minibatch to a training pair and a label tensor.'')),
        Assign (Tuple [Name ''pos_src'', Name ''pos_dst''])
          (Attribute (Name ''data'') ''positive_node_pairs''),
        Assign (Tuple [Name ''neg_src'', Name ''neg_dst''])
          (Attribute (Name ''data'') ''negative_node_pairs''),
        Assign (Name ''node_pairs'')
          (Tuple
             [Call (Attribute (Name ''torch'') ''cat'')
                [Tuple [Name ''pos_src'', Name ''neg_src'']]
                [(''dim'', Constant (CInt 0))],
              Call (Attribute (Name ''torch'') ''cat'')
                [Tuple [Name ''pos_dst'', Name ''neg_dst'']]
                [(''dim'', Constant (CInt 0))]]),
        Assign (Name ''pos_label'')
          (Call (Attribute (Name ''torch'') ''ones_like'') [Name ''pos_src''] []),
        Assign (Name ''neg_label'')
          (Call (Attribute (Name ''torch'') ''zeros_like'') [Name ''neg_src''] []),
        Assign (Name ''labels'')
          (Call (Attribute (Name ''torch'') ''cat'')
             [List [Name ''pos_label'', Name ''neg_label'']]
             [(''dim'', Constant (CInt 0))]),
        Return
          (Some
             (Tuple
                [Name ''node_pairs'',
                 Call (Attribute (Name ''labels'') ''float'') [] []]))]]"

text \<open>
  Cell \<open>SccLVrjSZSkd\<close>:
  \<^verbatim>\<open>
  import tqdm
  for epoch in range(3):
      model.train()
      total_loss = 0
      for step, data in tqdm.tqdm(enumerate(train_dataloader)):
          # Unpack MiniBatch.
          compacted_pairs, labels = to_binary_link_dgl_computing_pack(data)
          node_feature = data.node_features["feat"]
          # Convert sampled subgraphs to DGL blocks.
          blocks = data.blocks

          # Get the embeddings of the input nodes.
          y = model(blocks, node_feature)
          logits = model.predictor(
              y[compacted_pairs[0]] * y[compacted_pairs[1]]
          ).squeeze()

          # Compute loss.
          loss = F.binary_cross_entropy_with_logits(logits, labels)
          optimizer.zero_grad()
          loss.backward()
          optimizer.step()

          total_loss += loss.item()

      print(f"Epoch {epoch:03d} | Loss {total_loss / (step + 1):.3f}")
  \<close>
\<close>

definition link_prediction_cell18 :: "stmt list" where
  "link_prediction_cell18 =
    [Import ''tqdm'' None,
     For (Name ''epoch'') (Call (Name ''range'') [Constant (CInt 3)] [])
       [Expr (Call (Attribute (Name ''model'') ''train'') [] []),
        Assign (Name ''total_loss'') (Constant (CInt 0)),
        For (Tuple [Name ''step'', Name ''data''])
          (Call (Attribute (Name ''tqdm'') ''tqdm'')
             [Call (Name ''enumerate'') [Name ''train_dataloader''] []] [])
          [Assign (Tuple [Name ''compacted_pairs'', Name ''labels''])
             (Call (Name ''to_binary_link_dgl_computing_pack'') [Name ''data''] []),
           Assign (Name ''node_feature'')
             (Subscript (Attribute (Name ''data'') ''node_features'')
                (Constant (CStr ''feat''))),
           Assign (Name ''blocks'') (Attribute (Name ''data'') ''blocks''),
           Assign (Name ''y'')
             (Call (Name ''model'') [Name ''blocks'', Name ''node_feature''] []),
           Assign (Name ''logits'')
             (Call
                (Attribute
                   (Call (Attribute (Name ''model'') ''predictor'')
                      [BinOp
                         (Subscript (Name ''y'')
                            (Subscript (Name ''compacted_pairs'') (Constant (CInt 0))))
                         Mult
                         (Subscript (Name ''y'')
                            (Subscript (Name ''compacted_pairs'') (Constant (CInt 1))))]
                      []) ''squeeze'') [] []),
           Assign (Name ''loss'')
             (Call (Attribute (Name ''F'') ''binary_cross_entropy_with_logits'')
                [Name ''logits'', Name ''labels''] []),
           Expr (Call (Attribute (Name ''optimizer'') ''zero_grad'') [] []),
           Expr (Call (Attribute (Name ''loss'') ''backward'') [] []),
           Expr (Call (Attribute (Name ''optimizer'') ''step'') [] []),
           AugAssign (Name ''total_loss'') Add
             (Call (Attribute (Name ''loss'') ''item'') [] [])],
        Expr
          (Call (Name ''print'')
             [JoinedStr
                [Constant (CStr ''Epoch ''),
                 FormattedValue (Name ''epoch'') ''03d'',
                 Constant (CStr '' | Loss ''),
                 FormattedValue
                   (BinOp (Name ''total_loss'') Div
                      (BinOp (Name ''step'') Add (Constant (CInt 1))))
                   ''.3f'']] [])]]"

text \<open>
  Cell \<open>IMulfsnIZZVh\<close>:
  \<^verbatim>\<open>
  model.eval()

  datapipe = gb.ItemSampler(test_set, batch_size=256, shuffle=False)
  # Since we need to use all neghborhoods for evaluation, we set the fanout
  # to -1.
  datapipe = datapipe.sample_neighbor(graph, [-1, -1])
  datapipe = datapipe.fetch_feature(feature, node_feature_keys=["feat"])
  datapipe = datapipe.to_dgl()
  datapipe = datapipe.copy_to(device)
  eval_dataloader = gb.MultiProcessDataLoader(datapipe, num_workers=0)

  logits = []
  labels = []
  for step, data in enumerate(eval_dataloader):
      # Unpack MiniBatch.
      compacted_pairs, label = to_binary_link_dgl_computing_pack(data)

      # The features of sampled nodes.
      x = data.node_features["feat"]

      # Forward.
      y = model(data.blocks, x)
      logit = (
          model.predictor(y[compacted_pairs[0]] * y[compacted_pairs[1]])
          .squeeze()
          .detach()
      )

      logits.append(logit)
      labels.append(label)

  logits = torch.cat(logits, dim=0)
  labels = torch.cat(labels, dim=0)


  # Compute the AUROC score.
  from sklearn.metrics import roc_auc_score

  auc = roc_auc_score(labels, logits)
  print("Link Prediction AUC:", auc)
  \<close>
\<close>

definition link_prediction_cell20 :: "stmt list" where
  "link_prediction_cell20 =
    [Expr (Call (Attribute (Name ''model'') ''eval'') [] []),
     Assign (Name ''datapipe'')
       (Call (Attribute (Name ''gb'') ''ItemSampler'') [Name ''test_set'']
          [(''batch_size'', Constant (CInt 256)), (''shuffle'', Constant (CBool False))]),
     Assign (Name ''datapipe'')
       (Call (Attribute (Name ''datapipe'') ''sample_neighbor'')
          [Name ''graph'',
           List [UnaryOp USub (Constant (CInt 1)), UnaryOp USub (Constant (CInt 1))]]
          []),
     Assign (Name ''datapipe'')
       (Call (Attribute (Name ''datapipe'') ''fetch_feature'') [Name ''feature'']
          [(''node_feature_keys'', List [Constant (CStr ''feat'')])]),
     Assign (Name ''datapipe'') (Call (Attribute (Name ''datapipe'') ''to_dgl'') [] []),
     Assign (Name ''datapipe'')
       (Call (Attribute (Name ''datapipe'') ''copy_to'') [Name ''device''] []),
     Assign (Name ''eval_dataloader'')
       (Call (Attribute (Name ''gb'') ''MultiProcessDataLoader'') [Name ''datapipe'']
          [(''num_workers'', Constant (CInt 0))]),
     Assign (Name ''logits'') (List []),
     Assign (Name ''labels'') (List []),
     For (Tuple [Name ''step'', Name ''data''])
       (Call (Name ''enumerate'') [Name ''eval_dataloader''] [])
       [Assign (Tuple [Name ''compacted_pairs'', Name ''label''])
          (Call (Name ''to_binary_link_dgl_computing_pack'') [Name ''data''] []),
        Assign (Name ''x'')
          (Subscript (Attribute (Name ''data'') ''node_features'')
             (Constant (CStr ''feat''))),
        Assign (Name ''y'')
          (Call (Name ''model'') [Attribute (Name ''data'') ''blocks'', Name ''x''] []),
        Assign (Name ''logit'')
          (Call
             (Attribute
                (Call
                   (Attribute
                      (Call (Attribute (Name ''model'') ''predictor'')
                         [BinOp
                            (Subscript (Name ''y'')
                               (Subscript (Name ''compacted_pairs'') (Constant (CInt 0))))
                            Mult
                            (Subscript (Name ''y'')
                               (Subscript (Name ''compacted_pairs'')
                                  (Constant (CInt 1))))] [])
                      ''squeeze'') [] []) ''detach'') [] []),
        Expr (Call (Attribute (Name ''logits'') ''append'') [Name ''logit''] []),
        Expr (Call (Attribute (Name ''labels'') ''append'') [Name ''label''] [])],
     Assign (Name ''logits'')
       (Call (Attribute (Name ''torch'') ''cat'') [Name ''logits'']
          [(''dim'', Constant (CInt 0))]),
     Assign (Name ''labels'')
       (Call (Attribute (Name ''torch'') ''cat'') [Name ''labels'']
          [(''dim'', Constant (CInt 0))]),
     ImportFrom ''sklearn.metrics'' ''roc_auc_score'',
     Assign (Name ''auc'')
       (Call (Name ''roc_auc_score'') [Name ''labels'', Name ''logits''] []),
     Expr
       (Call (Name ''print'') [Constant (CStr ''Link Prediction AUC:''), Name ''auc'']
          [])]"

definition link_prediction :: notebook where
  "link_prediction =
    \<lparr>nbformat = 4, nbformat_minor = 0,
     cells =
      [\<lparr>cell_type = ''markdown'', cell_id = ''Ow8CQmZIV8Yn'', source = []\<rparr>,
       \<lparr>cell_type = ''markdown'', cell_id = ''onVijYWpWlMj'', source = []\<rparr>,
       \<lparr>cell_type = ''code'', cell_id = ''QcpjTazg6hEo'',
        source = link_prediction_cell2\<rparr>,
       \<lparr>cell_type = ''markdown'', cell_id = ''OOKZxxT7W1Rz'', source = []\<rparr>,
       \<lparr>cell_type = ''code'', cell_id = ''RnJkkSKhWiUG'',
        source = link_prediction_cell4\<rparr>,
       \<lparr>cell_type = ''markdown'', cell_id = ''WxnTMEQXXKsM'', source = []\<rparr>,
       \<lparr>cell_type = ''code'', cell_id = ''YCm8CGkOX9lK'',
        source = link_prediction_cell6\<rparr>,
       \<lparr>cell_type = ''markdown'', cell_id = ''2y-P5omQYP00'', source = []\<rparr>,
       \<lparr>cell_type = ''code'', cell_id = ''LZgXGfBvYijJ'',
        source = link_prediction_cell8\<rparr>,
       \<lparr>cell_type = ''markdown'', cell_id = ''5sU_aulqYkwK'', source = []\<rparr>,
       \<lparr>cell_type = ''code'', cell_id = ''euEdzmerYmZi'',
        source = link_prediction_cell10\<rparr>,
       \<lparr>cell_type = ''markdown'', cell_id = ''WYQqfrDWYtU0'', source = []\<rparr>,
       \<lparr>cell_type = ''code'', cell_id = ''0qQbBwO7Y3-Q'',
        source = link_prediction_cell12\<rparr>,
       \<lparr>cell_type = ''markdown'', cell_id = ''y23JppwHY5MC'', source = []\<rparr>,
       \<lparr>cell_type = ''code'', cell_id = ''omSIB_ePZACg'',
        source = link_prediction_cell14\<rparr>,
       \<lparr>cell_type = ''markdown'', cell_id = ''J9K1GUs4ZDYw'', source = []\<rparr>,
       \<lparr>cell_type = ''code'', cell_id = ''wvIJBPb7ZNUv'',
        source = link_prediction_cell16\<rparr>,
       \<lparr>cell_type = ''markdown'', cell_id = ''QyWtzNZcZRgp'', source = []\<rparr>,
       \<lparr>cell_type = ''code'', cell_id = ''SccLVrjSZSkd'',
        source = link_prediction_cell18\<rparr>,
       \<lparr>cell_type = ''markdown'', cell_id = ''pxow2XSkZXoO'', source = []\<rparr>,
       \<lparr>cell_type = ''code'', cell_id = ''IMulfsnIZZVh'',
        source = link_prediction_cell20\<rparr>,
       \<lparr>cell_type = ''markdown'', cell_id = ''KoCoIvqAZeCS'', source = []\<rparr>]\<rparr>"

subsection \<open>The node classification notebook\<close>

text \<open>
  Cell \<open>QcpjTazg6hEo\<close>:
  \<^verbatim>\<open>
  # Install required packages.
  import os
  import torch
  import numpy as np
  os.environ['TORCH'] = torch.__version__
  os.environ['DGLBACKEND'] = "pytorch"

  # Install the CPU version.
  device = torch.device("cpu")
  !pip install --pre dgl -f https://data.dgl.ai/wheels-test/repo.html

  try:
      import dgl
      import dgl.graphbolt as gb
      installed = True
  except ImportError as error:
      installed = False
      print(error)
  print("DGL installed!" if installed else "DGL not found!")
  \<close>
\<close>

definition node_classification_cell2 :: "stmt list" where
  "node_classification_cell2 =
    [Import ''os'' None,
     Import ''torch'' None,
     Import ''numpy'' (Some ''np''),
     Assign (Subscript (Attribute (Name ''os'') ''environ'') (Constant (CStr ''TORCH'')))
       (Attribute (Name ''torch'') ''__version__''),
     Assign
       (Subscript (Attribute (Name ''os'') ''environ'') (Constant (CStr ''DGLBACKEND'')))
       (Constant (CStr ''pytorch'')),
     Assign (Name ''device'')
       (Call (Attribute (Name ''torch'') ''device'') [Constant (CStr ''cpu'')] []),
     Shell ''pip install --pre dgl -f https://data.dgl.ai/wheels-test/repo.html'',
     Try
       [Import ''dgl'' None,
        Import ''dgl.graphbolt'' (Some ''gb''),
        Assign (Name ''installed'') (Constant (CBool True))]
       [ExceptHandler (Some (Name ''ImportError'')) (Some ''error'')
          [Assign (Name ''installed'') (Constant (CBool False)),
           Expr (Call (Name ''print'') [Name ''error''] [])]] [] [],
     Expr
       (Call (Name ''print'')
          [IfExp (Name ''installed'') (Constant (CStr ''DGL installed!''))
             (Constant (CStr ''DGL not found!''))] [])]"

text \<open>
  Cell \<open>RnJkkSKhWiUG\<close>:
  \<^verbatim>\<open>
  dataset = gb.BuiltinDataset("ogbn-arxiv").load()
  \<close>
\<close>

definition node_classification_cell4 :: "stmt list" where
  "node_classification_cell4 =
    [Assign (Name ''dataset'')
       (Call
          (Attribute
             (Call (Attribute (Name ''gb'') ''BuiltinDataset'')
                [Constant (CStr ''ogbn-arxiv'')] []) ''load'') [] [])]"

text \<open>
  Cell \<open>IXGZmgIaXJWQ\<close>:
  \<^verbatim>\<open>
  graph = dataset.graph
  feature = dataset.feature
  train_set = dataset.tasks[0].train_set
  valid_set = dataset.tasks[0].validation_set
  test_set = dataset.tasks[0].test_set
  task_name = dataset.tasks[0].metadata["name"]
  num_classes = dataset.tasks[0].metadata["num_classes"]
  print(f"Task: {task_name}. Number of classes: {num_classes}")
  \<close>
\<close>

definition node_classification_cell6 :: "stmt list" where
  "node_classification_cell6 =
    [Assign (Name ''graph'') (Attribute (Name ''dataset'') ''graph''),
     Assign (Name ''feature'') (Attribute (Name ''dataset'') ''feature''),
     Assign (Name ''train_set'')
       (Attribute (Subscript (Attribute (Name ''dataset'') ''tasks'') (Constant (CInt 0)))
          ''train_set''),
     Assign (Name ''valid_set'')
       (Attribute (Subscript (Attribute (Name ''dataset'') ''tasks'') (Constant (CInt 0)))
          ''validation_set''),
     Assign (Name ''test_set'')
       (Attribute (Subscript (Attribute (Name ''dataset'') ''tasks'') (Constant (CInt 0)))
          ''test_set''),
     Assign (Name ''task_name'')
       (Subscript
          (Attribute
             (Subscript (Attribute (Name ''dataset'') ''tasks'') (Constant (CInt 0)))
             ''metadata'') (Constant (CStr ''name''))),
     Assign (Name ''num_classes'')
       (Subscript
          (Attribute
             (Subscript (Attribute (Name ''dataset'') ''tasks'') (Constant (CInt 0)))
             ''metadata'') (Constant (CStr ''num_classes''))),
     Expr
       (Call (Name ''print'')
          [JoinedStr
             [Constant (CStr ''Task: ''), FormattedValue (Name ''task_name'') [],
              Constant (CStr ''. Number of classes: ''),
              FormattedValue (Name ''num_classes'') []]] [])]"

text \<open>
  Cell \<open>yQVYDO0ZbBvi\<close>:
  \<^verbatim>\<open>
  datapipe = gb.ItemSampler(train_set, batch_size=1024, shuffle=True)
  datapipe = datapipe.sample_neighbor(graph, [4, 4])
  datapipe = datapipe.fetch_feature(feature, node_feature_keys=["feat"])
  datapipe = datapipe.to_dgl()
  datapipe = datapipe.copy_to(device)
  train_dataloader = gb.MultiProcessDataLoader(datapipe, num_workers=0)
  \<close>
\<close>

definition node_classification_cell9 :: "stmt list" where
  "node_classification_cell9 =
    [Assign (Name ''datapipe'')
       (Call (Attribute (Name ''gb'') ''ItemSampler'') [Name ''train_set'']
          [(''batch_size'', Constant (CInt 1024)), (''shuffle'', Constant (CBool True))]),
     Assign (Name ''datapipe'')
       (Call (Attribute (Name ''datapipe'') ''sample_neighbor'')
          [Name ''graph'', List [Constant (CInt 4), Constant (CInt 4)]] []),
     Assign (Name ''datapipe'')
       (Call (Attribute (Name ''datapipe'') ''fetch_feature'') [Name ''feature'']
          [(''node_feature_keys'', List [Constant (CStr ''feat'')])]),
     Assign (Name ''datapipe'') (Call (Attribute (Name ''datapipe'') ''to_dgl'') [] []),
     Assign (Name ''datapipe'')
       (Call (Attribute (Name ''datapipe'') ''copy_to'') [Name ''device''] []),
     Assign (Name ''train_dataloader'')
       (Call (Attribute (Name ''gb'') ''MultiProcessDataLoader'') [Name ''datapipe'']
          [(''num_workers'', Constant (CInt 0))])]"

text \<open>
  Cell \<open>V7vQiKj2bL_o\<close>:
  \<^verbatim>\<open>
  data = next(iter(train_dataloader))
  print(data)
  \<close>
\<close>

definition node_classification_cell11 :: "stmt list" where
  "node_classification_cell11 =
    [Assign (Name ''data'')
       (Call (Name ''next'') [Call (Name ''iter'') [Name ''train_dataloader''] []] []),
     Expr (Call (Name ''print'') [Name ''data''] [])]"

text \<open>
  Cell \<open>bN4sgZqFbUvd\<close>:
  \<^verbatim>\<open>
  mfgs = data.blocks
  input_nodes = mfgs[0].srcdata[dgl.NID]
  print(f"Input nodes: {input_nodes}.")
  \<close>
\<close>

definition node_classification_cell13 :: "stmt list" where
  "node_classification_cell13 =
    [Assign (Name ''mfgs'') (Attribute (Name ''data'') ''blocks''),
     Assign (Name ''input_nodes'')
       (Subscript (Attribute (Subscript (Name ''mfgs'') (Constant (CInt 0))) ''srcdata'')
          (Attribute (Name ''dgl'') ''NID'')),
     Expr
       (Call (Name ''print'')
          [JoinedStr
             [Constant (CStr ''Input nodes: ''), FormattedValue (Name ''input_nodes'') [],
              Constant (CStr ''.'')]] [])]"

text \<open>
  Cell \<open>iKhEIL0Ccmwx\<close>:
  \<^verbatim>\<open>
  import torch.nn as nn
  import torch.nn.functional as F
  from dgl.nn import SAGEConv


  class Model(nn.Module):
      def __init__(self, in_feats, h_feats, num_classes):
          super(Model, self).__init__()
          self.conv1 = SAGEConv(in_feats, h_feats, aggregator_type="mean")
          self.conv2 = SAGEConv(h_feats, num_classes, aggregator_type="mean")
          self.h_feats = h_feats

      def forward(self, mfgs, x):
          h = self.conv1(mfgs[0], x)
          h = F.relu(h)
          h = self.conv2(mfgs[1], h)
          return h


  in_size = feature.size("node", None, "feat")[0]
  model = Model(in_size, 64, num_classes).to(device)
  \<close>
\<close>

definition node_classification_cell15 :: "stmt list" where
  "node_classification_cell15 =
    [Import ''torch.nn'' (Some ''nn''),
     Import ''torch.nn.functional'' (Some ''F''),
     ImportFrom ''dgl.nn'' ''SAGEConv'',
     ClassDef ''Model'' [Attribute (Name ''nn'') ''Module'']
       [FunctionDef ''__init__''
          [(''self'', None),
           (''in_feats'', None),
           (''h_feats'', None),
           (''num_classes'', None)]
          [Expr
             (Call
                (Attribute (Call (Name ''super'') [Name ''Model'', Name ''self''] [])
                   ''__init__'') [] []),
           Assign (Attribute (Name ''self'') ''conv1'')
             (Call (Name ''SAGEConv'') [Name ''in_feats'', Name ''h_feats'']
                [(''aggregator_type'', Constant (CStr ''mean''))]),
           Assign (Attribute (Name ''self'') ''conv2'')
             (Call (Name ''SAGEConv'') [Name ''h_feats'', Name ''num_classes'']
                [(''aggregator_type'', Constant (CStr ''mean''))]),
           Assign (Attribute (Name ''self'') ''h_feats'') (Name ''h_feats'')],
        FunctionDef ''forward'' [(''self'', None), (''mfgs'', None), (''x'', None)]
          [Assign (Name ''h'')
             (Call (Attribute (Name ''self'') ''conv1'')
                [Subscript (Name ''mfgs'') (Constant (CInt 0)), Name ''x''] []),
           Assign (Name ''h'') (Call (Attribute (Name ''F'') ''relu'') [Name ''h''] []),
           Assign (Name ''h'')
             (Call (Attribute (Name ''self'') ''conv2'')
                [Subscript (Name ''mfgs'') (Constant (CInt 1)), Name ''h''] []),
           Return (Some (Name ''h''))]],
     Assign (Name ''in_size'')
       (Subscript
          (Call (Attribute (Name ''feature'') ''size'')
             [Constant (CStr ''node''), Constant CNone, Constant (CStr ''feat'')] [])
          (Constant (CInt 0))),
     Assign (Name ''model'')
       (Call
          (Attribute
             (Call (Name ''Model'')
                [Name ''in_size'', Constant (CInt 64), Name ''num_classes''] [])
             ''to'') [Name ''device''] [])]"

text \<open>
  Cell \<open>dET8i_hewLUi\<close>:
  \<^verbatim>\<open>
  opt = torch.optim.Adam(model.parameters())
  \<close>
\<close>

definition node_classification_cell17 :: "stmt list" where
  "node_classification_cell17 =
    [Assign (Name ''opt'')
       (Call (Attribute (Attribute (Name ''torch'') ''optim'') ''Adam'')
          [Call (Attribute (Name ''model'') ''parameters'') [] []] [])]"

text \<open>
  Cell \<open>Gvd7vFWZwQI5\<close>:
  \<^verbatim>\<open>
  datapipe = gb.ItemSampler(valid_set, batch_size=1024, shuffle=False)
  datapipe = datapipe.sample_neighbor(graph, [4, 4])
  datapipe = datapipe.fetch_feature(feature, node_feature_keys=["feat"])
  datapipe = datapipe.to_dgl()
  datapipe = datapipe.copy_to(device)
  valid_dataloader = gb.MultiProcessDataLoader(datapipe, num_workers=0)


  import sklearn.metrics
  \<close>
\<close>

definition node_classification_cell19 :: "stmt list" where
  "node_classification_cell19 =
    [Assign (Name ''datapipe'')
       (Call (Attribute (Name ''gb'') ''ItemSampler'') [Name ''valid_set'']
          [(''batch_size'', Constant (CInt 1024)),
           (''shuffle'', Constant (CBool False))]),
     Assign (Name ''datapipe'')
       (Call (Attribute (Name ''datapipe'') ''sample_neighbor'')
          [Name ''graph'', List [Constant (CInt 4), Constant (CInt 4)]] []),
     Assign (Name ''datapipe'')
       (Call (Attribute (Name ''datapipe'') ''fetch_feature'') [Name ''feature'']
          [(''node_feature_keys'', List [Constant (CStr ''feat'')])]),
     Assign (Name ''datapipe'') (Call (Attribute (Name ''datapipe'') ''to_dgl'') [] []),
     Assign (Name ''datapipe'')
       (Call (Attribute (Name ''datapipe'') ''copy_to'') [Name ''device''] []),
     Assign (Name ''valid_dataloader'')
       (Call (Attribute (Name ''gb'') ''MultiProcessDataLoader'') [Name ''datapipe'']
          [(''num_workers'', Constant (CInt 0))]),
     Import ''sklearn.metrics'' None]"

text \<open>
  Cell \<open>wsfqhKUvwZEj\<close>:
  \<^verbatim>\<open>
  import tqdm

  for epoch in range(10):
      model.train()

      with tqdm.tqdm(train_dataloader) as tq:
          for step, data in enumerate(tq):
              x = data.node_features["feat"]
              labels = data.labels

              predictions = model(data.blocks, x)

              loss = F.cross_entropy(predictions, labels)
              opt.zero_grad()
              loss.backward()
              opt.step()

              accuracy = sklearn.metrics.accuracy_score(
                  labels.cpu().numpy(),
                  predictions.argmax(1).detach().cpu().numpy(),
              )

              tq.set_postfix(
                  {"loss": "%.03f" % loss.item(), "acc": "%.03f" % accuracy},
                  refresh=False,
              )

      model.eval()

      predictions = []
      labels = []
      with tqdm.tqdm(valid_dataloader) as tq, torch.no_grad():
          for data in tq:
              x = data.node_features["feat"]
              labels.append(data.labels.cpu().numpy())
              predictions.append(model(data.blocks, x).argmax(1).cpu().numpy())
          predictions = np.concatenate(predictions)
          labels = np.concatenate(labels)
          accuracy = sklearn.metrics.accuracy_score(labels, predictions)
          print("Epoch {} Validation Accuracy {}".format(epoch, accuracy))

          # Note that this tutorial do not train the whole model to the end.
          break
  \<close>
\<close>

definition node_classification_cell21 :: "stmt list" where
  "node_classification_cell21 =
    [Import ''tqdm'' None,
     For (Name ''epoch'') (Call (Name ''range'') [Constant (CInt 10)] [])
       [Expr (Call (Attribute (Name ''model'') ''train'') [] []),
        With
          [(Call (Attribute (Name ''tqdm'') ''tqdm'') [Name ''train_dataloader''] [],
            Some (Name ''tq''))]
          [For (Tuple [Name ''step'', Name ''data''])
             (Call (Name ''enumerate'') [Name ''tq''] [])
             [Assign (Name ''x'')
                (Subscript (Attribute (Name ''data'') ''node_features'')
                   (Constant (CStr ''feat''))),
              Assign (Name ''labels'') (Attribute (Name ''data'') ''labels''),
              Assign (Name ''predictions'')
                (Call (Name ''model'') [Attribute (Name ''data'') ''blocks'', Name ''x'']
                   []),
              Assign (Name ''loss'')
                (Call (Attribute (Name ''F'') ''cross_entropy'')
                   [Name ''predictions'', Name ''labels''] []),
              Expr (Call (Attribute (Name ''opt'') ''zero_grad'') [] []),
              Expr (Call (Attribute (Name ''loss'') ''backward'') [] []),
              Expr (Call (Attribute (Name ''opt'') ''step'') [] []),
              Assign (Name ''accuracy'')
                (Call
                   (Attribute (Attribute (Name ''sklearn'') ''metrics'')
                      ''accuracy_score'')
                   [Call
                      (Attribute (Call (Attribute (Name ''labels'') ''cpu'') [] [])
                         ''numpy'') [] [],
                    Call
                      (Attribute
                         (Call
                            (Attribute
                               (Call
                                  (Attribute
                                     (Call (Attribute (Name ''predictions'') ''argmax'')
                                        [Constant (CInt 1)] [])
                                     ''detach'') [] [])
                               ''cpu'') [] []) ''numpy'') [] []] []),
              Expr
                (Call (Attribute (Name ''tq'') ''set_postfix'')
                   [Dict
                      [(Constant (CStr ''loss''),
                        BinOp (Constant (CStr ''%.03f'')) Mod
                          (Call (Attribute (Name ''loss'') ''item'') [] [])),
                       (Constant (CStr ''acc''),
                        BinOp (Constant (CStr ''%.03f'')) Mod (Name ''accuracy''))]]
                   [(''refresh'', Constant (CBool False))])]],
        Expr (Call (Attribute (Name ''model'') ''eval'') [] []),
        Assign (Name ''predictions'') (List []),
        Assign (Name ''labels'') (List []),
        With
          [(Call (Attribute (Name ''tqdm'') ''tqdm'') [Name ''valid_dataloader''] [],
            Some (Name ''tq'')),
           (Call (Attribute (Name ''torch'') ''no_grad'') [] [], None)]
          [For (Name ''data'') (Name ''tq'')
             [Assign (Name ''x'')
                (Subscript (Attribute (Name ''data'') ''node_features'')
                   (Constant (CStr ''feat''))),
              Expr
                (Call (Attribute (Name ''labels'') ''append'')
                   [Call
                      (Attribute
                         (Call (Attribute (Attribute (Name ''data'') ''labels'') ''cpu'')
                            [] []) ''numpy'') [] []] []),
              Expr
                (Call (Attribute (Name ''predictions'') ''append'')
                   [Call
                      (Attribute
                         (Call
                            (Attribute
                               (Call
                                  (Attribute
                                     (Call (Name ''model'')
                                        [Attribute (Name ''data'') ''blocks'', Name ''x'']
                                        [])
                                     ''argmax'')
                                  [Constant (CInt 1)] [])
                               ''cpu'') [] []) ''numpy'') [] []] [])],
           Assign (Name ''predictions'')
             (Call (Attribute (Name ''np'') ''concatenate'') [Name ''predictions''] []),
           Assign (Name ''labels'')
             (Call (Attribute (Name ''np'') ''concatenate'') [Name ''labels''] []),
           Assign (Name ''accuracy'')
             (Call
                (Attribute (Attribute (Name ''sklearn'') ''metrics'') ''accuracy_score'')
                [Name ''labels'', Name ''predictions''] []),
           Expr
             (Call (Name ''print'')
                [Call
                   (Attribute (Constant (CStr ''Epoch {} Validation Accuracy {}''))
                      ''format'') [Name ''epoch'', Name ''accuracy'']
                   []] []),
           Break]]]"

definition node_classification :: notebook where
  "node_classification =
    \<lparr>nbformat = 4, nbformat_minor = 0,
     cells =
      [\<lparr>cell_type = ''markdown'', cell_id = ''OxbY2KlG4ZfJ'', source = []\<rparr>,
       \<lparr>cell_type = ''markdown'', cell_id = ''mzZKrVVk6Y_8'', source = []\<rparr>,
       \<lparr>cell_type = ''code'', cell_id = ''QcpjTazg6hEo'',
        source = node_classification_cell2\<rparr>,
       \<lparr>cell_type = ''markdown'', cell_id = ''XWdRZAM-51Cb'', source = []\<rparr>,
       \<lparr>cell_type = ''code'', cell_id = ''RnJkkSKhWiUG'',
        source = node_classification_cell4\<rparr>,
       \<lparr>cell_type = ''markdown'', cell_id = ''S8avoKBiXA9j'', source = []\<rparr>,
       \<lparr>cell_type = ''code'', cell_id = ''IXGZmgIaXJWQ'',
        source = node_classification_cell6\<rparr>,
       \<lparr>cell_type = ''markdown'', cell_id = ''y8yn77Kg6HkW'', source = []\<rparr>,
       \<lparr>cell_type = ''markdown'', cell_id = ''q7GrcJTnZQjt'', source = []\<rparr>,
       \<lparr>cell_type = ''code'', cell_id = ''yQVYDO0ZbBvi'',
        source = node_classification_cell9\<rparr>,
       \<lparr>cell_type = ''markdown'', cell_id = ''7Rp12SUhbEV1'', source = []\<rparr>,
       \<lparr>cell_type = ''code'', cell_id = ''V7vQiKj2bL_o'',
        source = node_classification_cell11\<rparr>,
       \<lparr>cell_type = ''markdown'', cell_id = ''-eBuPnT-bS-o'', source = []\<rparr>,
       \<lparr>cell_type = ''code'', cell_id = ''bN4sgZqFbUvd'',
        source = node_classification_cell13\<rparr>,
       \<lparr>cell_type = ''markdown'', cell_id = ''fV6epnRxbZl4'', source = []\<rparr>,
       \<lparr>cell_type = ''code'', cell_id = ''iKhEIL0Ccmwx'',
        source = node_classification_cell15\<rparr>,
       \<lparr>cell_type = ''markdown'', cell_id = ''OGLN3kCcwCA8'', source = []\<rparr>,
       \<lparr>cell_type = ''code'', cell_id = ''dET8i_hewLUi'',
        source = node_classification_cell17\<rparr>,
       \<lparr>cell_type = ''markdown'', cell_id = ''leZvFP4GwMcq'', source = []\<rparr>,
       \<lparr>cell_type = ''code'', cell_id = ''Gvd7vFWZwQI5'',
        source = node_classification_cell19\<rparr>,
       \<lparr>cell_type = ''markdown'', cell_id = ''nTIIfVMDwXqX'', source = []\<rparr>,
       \<lparr>cell_type = ''code'', cell_id = ''wsfqhKUvwZEj'',
        source = node_classification_cell21\<rparr>,
       \<lparr>cell_type = ''markdown'', cell_id = ''kmHnUI0QwfJ4'', source = []\<rparr>]\<rparr>"

definition repository :: "notebook list" where
  "repository = [walkthrough, link_prediction, node_classification]"

section \<open>Reading the syntax\<close>

text \<open>
  All sub-expressions of an expression, itself first; the expressions that a statement
  holds itself (not those of the statements nested in it); and all statements nested in
  a statement, itself first.
\<close>

fun subexprs :: "expr \<Rightarrow> expr list" where
  "subexprs (Name x) = [Name x]"
| "subexprs (Constant c) = [Constant c]"
| "subexprs (Attribute e a) = Attribute e a # subexprs e"
| "subexprs (Subscript e i) = Subscript e i # subexprs e @ subexprs i"
| "subexprs (Call f args kws) =
     Call f args kws # subexprs f @ concat (map subexprs args)
       @ concat (map (\<lambda>(k, v). subexprs v) kws)"
| "subexprs (List es) = List es # concat (map subexprs es)"
| "subexprs (Tuple es) = Tuple es # concat (map subexprs es)"
| "subexprs (Dict kvs) = Dict kvs # concat (map (\<lambda>(k, v). subexprs k @ subexprs v) kvs)"
| "subexprs (BinOp l op r) = BinOp l op r # subexprs l @ subexprs r"
| "subexprs (UnaryOp op e) = UnaryOp op e # subexprs e"
| "subexprs (Compare l op r) = Compare l op r # subexprs l @ subexprs r"
| "subexprs (IfExp t b e) = IfExp t b e # subexprs t @ subexprs b @ subexprs e"
| "subexprs (JoinedStr es) = JoinedStr es # concat (map subexprs es)"
| "subexprs (FormattedValue e spec) = FormattedValue e spec # subexprs e"

fun handler_types :: "handler \<Rightarrow> expr list" where
  "handler_types (ExceptHandler t n b) = (case t of None \<Rightarrow> [] | Some e \<Rightarrow> [e])"

fun stmt_exprs :: "stmt \<Rightarrow> expr list" where
  "stmt_exprs (Import m a) = []"
| "stmt_exprs (ImportFrom m n) = []"
| "stmt_exprs (Assign t v) = [t, v]"
| "stmt_exprs (AugAssign t op v) = [t, v]"
| "stmt_exprs (Expr e) = [e]"
| "stmt_exprs (Shell c) = []"
| "stmt_exprs (Try b hs orelse final) = concat (map handler_types hs)"
| "stmt_exprs (For t i b) = [t, i]"
| "stmt_exprs (While c b) = [c]"
| "stmt_exprs (With items b) =
     concat (map (\<lambda>(e, v). e # (case v of None \<Rightarrow> [] | Some x \<Rightarrow> [x])) items)"
| "stmt_exprs (FunctionDef n args b) =
     concat (map (\<lambda>(a, ann). case ann of None \<Rightarrow> [] | Some x \<Rightarrow> [x]) args)"
| "stmt_exprs (ClassDef n bases b) = bases"
| "stmt_exprs (If_stmt c b orelse) = [c]"
| "stmt_exprs (Return r) = (case r of None \<Rightarrow> [] | Some e \<Rightarrow> [e])"
| "stmt_exprs (Raise r) = (case r of None \<Rightarrow> [] | Some e \<Rightarrow> [e])"
| "stmt_exprs (Assert e) = [e]"
| "stmt_exprs (Delete es) = es"
| "stmt_exprs Break = []"
| "stmt_exprs Continue = []"
| "stmt_exprs Pass = []"

fun substmts :: "stmt \<Rightarrow> stmt list" and handler_stmts :: "handler \<Rightarrow> stmt list" where
  "substmts (Try b hs orelse final) =
     Try b hs orelse final # concat (map substmts b) @ concat (map handler_stmts hs)
       @ concat (map substmts orelse) @ concat (map substmts final)"
| "substmts (For t i b) = For t i b # concat (map substmts b)"
| "substmts (While c b) = While c b # concat (map substmts b)"
| "substmts (With items b) = With items b # concat (map substmts b)"
| "substmts (FunctionDef n args b) = FunctionDef n args b # concat (map substmts b)"
| "substmts (ClassDef n bases b) = ClassDef n bases b # concat (map substmts b)"
| "substmts (If_stmt c b orelse) =
     If_stmt c b orelse # concat (map substmts b) @ concat (map substmts orelse)"
| "substmts (Import m a) = [Import m a]"
| "substmts (ImportFrom m n) = [ImportFrom m n]"
| "substmts (Assign t v) = [Assign t v]"
| "substmts (AugAssign t op v) = [AugAssign t op v]"
| "substmts (Expr e) = [Expr e]"
| "substmts (Shell c) = [Shell c]"
| "substmts (Return r) = [Return r]"
| "substmts (Raise r) = [Raise r]"
| "substmts (Assert e) = [Assert e]"
| "substmts (Delete es) = [Delete es]"
| "substmts Break = [Break]"
| "substmts Continue = [Continue]"
| "substmts Pass = [Pass]"
| "handler_stmts (ExceptHandler t n b) = concat (map substmts b)"

text \<open>
  The top-level statements of a notebook in cell order, all its statements, and all
  expressions of a list of statements.
\<close>

definition nb_code :: "notebook \<Rightarrow> stmt list" where
  "nb_code nb = concat (map source (cells nb))"

definition nb_stmts :: "notebook \<Rightarrow> stmt list" where
  "nb_stmts nb = concat (map substmts (nb_code nb))"

definition stmts_exprs :: "stmt list \<Rightarrow> expr list" where
  "stmts_exprs ss = concat (map subexprs (concat (map stmt_exprs (concat (map substmts ss)))))"

definition nb_exprs :: "notebook \<Rightarrow> expr list" where
  "nb_exprs nb = stmts_exprs (nb_code nb)"

text \<open>
  \<open>method_call\<close> reads a call \<open>r.m(args, keywords)\<close> on a plain name \<open>r\<close>;
  \<open>assign_name\<close> reads an assignment \<open>v = e\<close> to a plain name.
\<close>

fun method_call ::
  "expr \<Rightarrow> (string \<times> string \<times> expr list \<times> (string \<times> expr) list) option" where
  "method_call (Call (Attribute (Name r) m) args kws) = Some (r, m, args, kws)"
| "method_call _ = None"

fun assign_name :: "stmt \<Rightarrow> (string \<times> expr) option" where
  "assign_name (Assign (Name v) e) = Some (v, e)"
| "assign_name _ = None"

definition calls_to ::
  "string \<Rightarrow> string \<Rightarrow> notebook \<Rightarrow> (expr list \<times> (string \<times> expr) list) list" where
  "calls_to r m nb =
     concat (map (\<lambda>e. case method_call e of
                          None \<Rightarrow> []
                        | Some (r', m', args, kws) \<Rightarrow>
                            if r' = r \<and> m' = m then [(args, kws)] else [])
                 (nb_exprs nb))"

definition assigned :: "string \<Rightarrow> notebook \<Rightarrow> expr list" where
  "assigned v nb =
     concat (map (\<lambda>s. case assign_name s of
                          None \<Rightarrow> []
                        | Some (v', e) \<Rightarrow> if v' = v then [e] else [])
                 (nb_stmts nb))"

fun imported :: "stmt \<Rightarrow> string list" where
  "imported (Import m a) = [m]"
| "imported (ImportFrom m n) = [m]"
| "imported _ = []"

definition nb_imports :: "notebook \<Rightarrow> string list" where
  "nb_imports nb = concat (map imported (nb_stmts nb))"

text \<open>
  Python's standard modules for threads, processes, asynchronous tasks and their
  synchronisation, and PyTorch's process and distributed packages.
\<close>

definition concurrency_modules :: "string list" where
  "concurrency_modules =
     [''threading'', ''multiprocessing'', ''concurrent.futures'', ''asyncio'',
      ''subprocess'', ''queue'', ''sched'', ''signal'', ''torch.multiprocessing'',
      ''torch.distributed'']"

subsection \<open>Error handling constructs\<close>

fun is_Try :: "stmt \<Rightarrow> bool" where
  "is_Try (Try b hs orelse final) = True"
| "is_Try _ = False"

fun is_Raise_or_Assert :: "stmt \<Rightarrow> bool" where
  "is_Raise_or_Assert (Raise r) = True"
| "is_Raise_or_Assert (Assert e) = True"
| "is_Raise_or_Assert _ = False"

definition try_stmts :: "notebook \<Rightarrow> stmt list" where
  "try_stmts nb = filter is_Try (nb_stmts nb)"

subsection \<open>Data pipelines\<close>

text \<open>
  The notebooks build a pipeline in the variable \<open>datapipe\<close>:
  \<open>datapipe = gb.ItemSampler(...)\<close> starts one, \<open>datapipe = datapipe.m(...)\<close> adds the
  stage \<open>m\<close>, and \<open>v = gb.MultiProcessDataLoader(datapipe, ...)\<close> hands it to a data
  loader \<open>v\<close>. The top-level statements of a notebook, in order, give these events;
  any other statement gives \<open>Iterate\<close> for each \<open>iter(datapipe)\<close> in it,
  \<open>Mention\<close> for each other occurrence of \<open>datapipe\<close>, and \<open>Use v\<close> for each
  occurrence of a data loader's name \<open>v\<close>.
\<close>

datatype event = Stage string | Load string | Iterate | Mention | Use string

definition iter_datapipe :: expr where
  "iter_datapipe = Call (Name ''iter'') [Name ''datapipe''] []"

definition other_uses :: "string list \<Rightarrow> stmt \<Rightarrow> event list" where
  "other_uses loaders s =
     (let es = stmts_exprs [s];
          iters = length (filter (\<lambda>e. e = iter_datapipe) es);
          mentions = length (filter (\<lambda>e. e = Name ''datapipe'') es)
      in replicate iters Iterate @ replicate (mentions - iters) Mention
           @ concat (map (\<lambda>e. case e of Name v \<Rightarrow> if v \<in> set loaders then [Use v] else []
                                | _ \<Rightarrow> []) es))"

definition pipe_events :: "string list \<Rightarrow> stmt \<Rightarrow> event list" where
  "pipe_events loaders s =
     (case assign_name s of
        None \<Rightarrow> other_uses loaders s
      | Some (v, e) \<Rightarrow>
          (case method_call e of
             None \<Rightarrow> other_uses loaders s
           | Some (r, m, args, kws) \<Rightarrow>
               if v = ''datapipe'' \<and> r = ''gb'' \<and> m = ''ItemSampler'' then [Stage m]
               else if v = ''datapipe'' \<and> r = ''datapipe'' then [Stage m]
               else if r = ''gb'' \<and> m = ''MultiProcessDataLoader''
                         \<and> args = [Name ''datapipe'']
                 then [Load v]
               else other_uses loaders s))"

fun loaded :: "event \<Rightarrow> string list" where
  "loaded (Load v) = [v]"
| "loaded _ = []"

definition nb_loaders :: "notebook \<Rightarrow> string list" where
  "nb_loaders nb = concat (map loaded (concat (map (pipe_events []) (nb_code nb))))"

definition nb_events :: "notebook \<Rightarrow> event list" where
  "nb_events nb = concat (map (pipe_events (nb_loaders nb)) (nb_code nb))"

text \<open>The events of one pipeline run from one \<open>ItemSampler\<close> to the next.\<close>

fun pipelines :: "event list \<Rightarrow> event list list" where
  "pipelines [] = []"
| "pipelines (e # es) =
     (case pipelines es of
        [] \<Rightarrow> [[e]]
      | p # ps \<Rightarrow> if hd p = Stage ''ItemSampler'' then [e] # p # ps else (e # p) # ps)"

fun is_Stage :: "event \<Rightarrow> bool" where
  "is_Stage (Stage m) = True"
| "is_Stage _ = False"

fun staged :: "event \<Rightarrow> string list" where
  "staged (Stage m) = [m]"
| "staged _ = []"

definition stage_names :: "event list \<Rightarrow> string list" where
  "stage_names p = concat (map staged p)"

text \<open>
  The order of the specification: item sampling, negative sampling (when present),
  neighbor sampling, feature fetching, conversion to the DGL format, copy to the device.
  A pipeline is chained and only then used when its events are all its stages, in that
  order, followed by events that are no stages.
\<close>

definition canonical_stages :: "string list" where
  "canonical_stages =
     [''ItemSampler'', ''sample_uniform_negative'', ''sample_neighbor'', ''fetch_feature'',
      ''to_dgl'', ''copy_to'']"

definition fixed_order :: "string list \<Rightarrow> bool" where
  "fixed_order ms =
     (ms = canonical_stages \<or> ms = remove1 ''sample_uniform_negative'' canonical_stages)"

definition chained_then_used :: "event list \<Rightarrow> bool" where
  "chained_then_used p =
     (fixed_order (stage_names (takeWhile is_Stage p))
      \<and> \<not> list_ex is_Stage (dropWhile is_Stage p))"

text \<open>Every use of a data loader comes after the statement that constructs it.\<close>

fun loads_before_uses :: "string list \<Rightarrow> event list \<Rightarrow> bool" where
  "loads_before_uses seen [] = True"
| "loads_before_uses seen (Load v # es) = loads_before_uses (v # seen) es"
| "loads_before_uses seen (Use v # es) = (v \<in> set seen \<and> loads_before_uses seen es)"
| "loads_before_uses seen (e # es) = loads_before_uses seen es"

subsection \<open>Uses of the data objects\<close>





















text \<open>The functions and classes that a notebook defines.\<close>

fun defined :: "stmt \<Rightarrow> string list" where
  "defined (FunctionDef n args b) = [n]"
| "defined (ClassDef n bases b) = [n]"
| "defined _ = []"

definition nb_defined :: "notebook \<Rightarrow> string list" where
  "nb_defined nb = concat (map defined (nb_stmts nb))"






subsection \<open>Functions and classes defined in the notebooks\<close>

fun fundefs :: "stmt \<Rightarrow> (string \<times> stmt list) list" where
  "fundefs (FunctionDef n args b) = [(n, b)]"
| "fundefs _ = []"

fun classdefs :: "stmt \<Rightarrow> (string \<times> expr list \<times> string list) list" where
  "classdefs (ClassDef n bases b) = [(n, bases, concat (map defined b))]"
| "classdefs _ = []"

definition nb_fundefs :: "notebook \<Rightarrow> (string \<times> stmt list) list" where
  "nb_fundefs nb = concat (map fundefs (nb_stmts nb))"

definition nb_classdefs :: "notebook \<Rightarrow> (string \<times> expr list \<times> string list) list" where
  "nb_classdefs nb = concat (map classdefs (nb_stmts nb))"

text \<open>
  A body only sequences calls when it is a straight line of assignments, expression
  statements and returns (no loop, branch or other compound statement) and none of its
  expressions computes with an operator, a comparison or a conditional.
\<close>

fun simple_stmt :: "stmt \<Rightarrow> bool" where
  "simple_stmt (Assign t v) = True"
| "simple_stmt (Expr e) = True"
| "simple_stmt (Return r) = True"
| "simple_stmt _ = False"

fun operation :: "expr \<Rightarrow> bool" where
  "operation (BinOp l op r) = True"
| "operation (UnaryOp op e) = True"
| "operation (Compare l op r) = True"
| "operation (IfExp t b e) = True"
| "operation _ = False"

definition sequences_calls :: "stmt list \<Rightarrow> bool" where
  "sequences_calls body =
     (list_all simple_stmt (concat (map substmts body))
      \<and> \<not> list_ex operation (stmts_exprs body))"

text \<open>
  The expressions that a body calls, in the order of the source. A call is a call of
  the notebook's own code when the called expression is the plain name of a function or
  class that the notebook defines, or \<open>self.m\<close> for a method \<open>m\<close> that it defines.
\<close>

fun callee :: "expr \<Rightarrow> expr list" where
  "callee (Call f args kws) = [f]"
| "callee _ = []"

definition callees :: "stmt list \<Rightarrow> expr list" where
  "callees body = concat (map callee (stmts_exprs body))"

fun own_call :: "notebook \<Rightarrow> expr \<Rightarrow> bool" where
  "own_call nb (Name g) = (g \<in> set (nb_defined nb))"
| "own_call nb (Attribute e m) = (e = Name ''self'' \<and> m \<in> set (nb_defined nb))"
| "own_call nb _ = False"

text \<open>
  The names that the \<open>import\<close> statements of a notebook bind, each with the module
  (or the member of a module) that the statement imports; \<open>import a.b\<close> binds \<open>a\<close>.
\<close>

fun import_binding :: "stmt \<Rightarrow> (string \<times> string) list" where
  "import_binding (Import m a) =
     [(case a of None \<Rightarrow> takeWhile (\<lambda>c. c \<noteq> CHR ''.'') m | Some n \<Rightarrow> n, m)]"
| "import_binding (ImportFrom m n) = [(n, m @ ''.'' @ n)]"
| "import_binding _ = []"

definition nb_import_bindings :: "notebook \<Rightarrow> (string \<times> string) list" where
  "nb_import_bindings nb = concat (map import_binding (nb_stmts nb))"

section \<open>Properties\<close>

subsection \<open>The minibatch conversion and the models\<close>

lemma to_float_labels:
  "to_float (cat (ones_like ps) (zeros_like ns)) =
     replicate (length ps) 1 @ replicate (length ns) 0"
  by (simp add: to_float_def cat_def ones_like_def zeros_like_def map_replicate_const)

text \<open>
  Claim C8. For a minibatch whose positive node pairs are \<open>(pos_src, pos_dst)\<close>, both of
  length \<open>p\<close>, and whose negative node pairs are \<open>(neg_src, neg_dst)\<close>, both of length
  \<open>n\<close>, \<open>to_binary_link_dgl_computing_pack\<close> returns the concatenated sources and
  destinations together with a float label tensor of length \<open>p + n\<close> that is 1 on the
  first \<open>p\<close> positions and 0 on the other \<open>n\<close>; position by position, the first \<open>p\<close>
  pairs are the positive pairs with label 1 and the next \<open>n\<close> are the negative pairs with
  label 0.
\<close>

theorem to_binary_link_dgl_computing_pack_labels:
  assumes "positive_node_pairs data = Some (pos_src, pos_dst)"
    and "negative_node_pairs data = Some (neg_src, neg_dst)"
    and "length pos_src = p" and "length pos_dst = p"
    and "length neg_src = n" and "length neg_dst = n"
  shows "\<exists>src dst labels.
           to_binary_link_dgl_computing_pack data = Inr ((src, dst), labels)
         \<and> src = pos_src @ neg_src \<and> dst = pos_dst @ neg_dst
         \<and> labels = replicate p 1 @ replicate n 0
         \<and> length src = p + n \<and> length dst = p + n \<and> length labels = p + n
         \<and> (\<forall>i. i < p \<longrightarrow>
               src ! i = pos_src ! i \<and> dst ! i = pos_dst ! i \<and> labels ! i = 1)
         \<and> (\<forall>i. i < n \<longrightarrow>
               src ! (p + i) = neg_src ! i \<and> dst ! (p + i) = neg_dst ! i
             \<and> labels ! (p + i) = 0)"
proof -
  have run: "to_binary_link_dgl_computing_pack data =
      Inr ((pos_src @ neg_src, pos_dst @ neg_dst), replicate p 1 @ replicate n 0)"
    using assms(1,2,3,5)
    by (simp add: to_binary_link_dgl_computing_pack_def Let_def to_float_labels)
      (simp add: cat_def)
  have pos: "\<forall>i. i < p \<longrightarrow>
      (pos_src @ neg_src) ! i = pos_src ! i \<and> (pos_dst @ neg_dst) ! i = pos_dst ! i
    \<and> (replicate p (1::real) @ replicate n 0) ! i = 1"
    using assms(3,4) by (simp add: nth_append)
  have neg: "\<forall>i. i < n \<longrightarrow>
      (pos_src @ neg_src) ! (p + i) = neg_src ! i
    \<and> (pos_dst @ neg_dst) ! (p + i) = neg_dst ! i
    \<and> (replicate p (1::real) @ replicate n 0) ! (p + i) = 0"
    using assms(3,4) by (simp add: nth_append)
  show ?thesis
    using run pos neg assms(3-6) by simp
qed

theorem to_binary_link_dgl_computing_pack_labels_witness:
  "to_binary_link_dgl_computing_pack
     \<lparr>positive_node_pairs = Some ([0, 1], [2, 3]),
      negative_node_pairs = Some ([0, 1, 1], [4, 5, 6])\<rparr>
   = Inr (([0, 1, 0, 1, 1], [2, 3, 4, 5, 6]), [1, 1, 0, 0, 0])"
  using to_binary_link_dgl_computing_pack_labels
    [of "\<lparr>positive_node_pairs = Some ([0, 1], [2, 3]),
          negative_node_pairs = Some ([0, 1, 1], [4, 5, 6])\<rparr>"
        "[0, 1]" "[2, 3]" "[0, 1, 1]" "[4, 5, 6]" 2 3]
  by (simp add: numeral_2_eq_2 numeral_3_eq_3)

lemma loop_fold:
  "i \<le> length (layers self) \<Longrightarrow> length (layers self) \<le> length bs \<Longrightarrow>
   SAGE_forward_loop relu self i (zip (drop i (layers self)) (drop i bs)) h =
   fold (layer_step relu (layers self) bs) [i..<length (layers self)] h"
proof (induction "length (layers self) - i" arbitrary: i h)
  case 0
  then show ?case by simp
next
  case (Suc d)
  then have lt: "i < length (layers self)" and ltb: "i < length bs" by auto
  have dl: "drop i (layers self) = (layers self ! i) # drop (Suc i) (layers self)"
    using lt by (simp add: Cons_nth_drop_Suc)
  have db: "drop i bs = (bs ! i) # drop (Suc i) bs"
    using ltb by (simp add: Cons_nth_drop_Suc)
  have up: "[i..<length (layers self)] = i # [Suc i..<length (layers self)]"
    using lt by (simp add: upt_conv_Cons)
  have d: "d = length (layers self) - Suc i" using Suc.hyps(2) by simp
  have last: "(int i = int (length (layers self)) - 1) = (Suc i = length (layers self))"
    by auto
  have ih: "SAGE_forward_loop relu self (Suc i)
      (zip (drop (Suc i) (layers self)) (drop (Suc i) bs)) h' =
    fold (layer_step relu (layers self) bs) [Suc i..<length (layers self)] h'" for h'
    using Suc.hyps(1)[OF d] lt Suc.prems(2) by simp
  show ?case
    unfolding dl db up
    by (simp add: Let_def ih last layer_step_def del: of_nat_Suc)
qed

lemma loop_take:
  "SAGE_forward_loop relu self i (zip ls bs) h =
   SAGE_forward_loop relu self i (zip ls (take (length ls) bs)) h"
proof -
  have "zip ls (take (length ls) bs) = zip ls bs"
    by (induction ls arbitrary: bs) (auto simp: neq_Nil_conv split: list.splits, (case_tac bs; simp)+)
  then show ?thesis by simp
qed

text \<open>
  Claim C9. Given at least as many blocks as layers, \<open>SAGE.forward\<close> is the layer-wise
  pass: layer \<open>i\<close> on block \<open>i\<close>, in order, ReLU after every layer but the last, whose
  output is returned as it is. The result depends on the first \<open>k\<close> blocks only
  (\<open>k\<close> the number of layers). \<open>Model.forward\<close>, given at least two MFGs, is the same
  pass over its two layers \<open>conv1\<close>, \<open>conv2\<close> and reads the first two MFGs only.
  For the models as their \<open>__init__\<close> builds them (two layers each): the first layer on
  the first block, ReLU, the second layer on the second block, and no activation after it.
\<close>

theorem forward_layerwise:
  "(length (layers sage) \<le> length blocks \<longrightarrow>
      SAGE_forward relu sage blocks x = layerwise relu (layers sage) blocks x)
 \<and> SAGE_forward relu sage blocks x =
      SAGE_forward relu sage (take (length (layers sage)) blocks) x
 \<and> (2 \<le> length mfgs \<longrightarrow>
      Model_forward relu model mfgs x
        = Inr (layerwise relu [conv1 model, conv2 model] mfgs x)
    \<and> Model_forward relu model mfgs x = Model_forward relu model (take 2 mfgs) x)
 \<and> SAGE_forward relu (SAGE_init SAGEConv in_size hidden) (b0 # b1 # bs) x
      = SAGEConv hidden hidden ''mean'' b1 (relu (SAGEConv in_size hidden ''mean'' b0 x))
 \<and> Model_forward relu (Model_init SAGEConv in_feats h num_classes) (m0 # m1 # ms) x
      = Inr (SAGEConv h num_classes ''mean'' m1 (relu (SAGEConv in_feats h ''mean'' m0 x)))"
proof (intro conjI impI)
  assume le: "length (layers sage) \<le> length blocks"
  show "SAGE_forward relu sage blocks x = layerwise relu (layers sage) blocks x"
    using loop_fold[of 0 sage blocks relu x] le
    by (simp add: SAGE_forward_def layerwise_def)
next
  show "SAGE_forward relu sage blocks x =
      SAGE_forward relu sage (take (length (layers sage)) blocks) x"
    unfolding SAGE_forward_def by (rule loop_take)
next
  assume two: "2 \<le> length mfgs"
  then obtain b0 b1 rest where m: "mfgs = b0 # b1 # rest"
    by (cases mfgs; cases "tl mfgs"; simp)
  show "Model_forward relu model mfgs x
      = Inr (layerwise relu [conv1 model, conv2 model] mfgs x)"
    by (simp add: m Model_forward_def getitem_def layerwise_def layer_step_def Let_def)
  show "Model_forward relu model mfgs x = Model_forward relu model (take 2 mfgs) x"
    by (simp add: m Model_forward_def getitem_def Let_def numeral_2_eq_2)
next
  show "SAGE_forward relu (SAGE_init SAGEConv in_size hidden) (b0 # b1 # bs) x
      = SAGEConv hidden hidden ''mean'' b1 (relu (SAGEConv in_size hidden ''mean'' b0 x))"
    by (simp add: SAGE_forward_def SAGE_init_def Let_def)
next
  show "Model_forward relu (Model_init SAGEConv in_feats h num_classes) (m0 # m1 # ms) x
      = Inr (SAGEConv h num_classes ''mean'' m1 (relu (SAGEConv in_feats h ''mean'' m0 x)))"
    by (simp add: Model_forward_def Model_init_def getitem_def Let_def)
qed

theorem forward_layerwise_witness:
  "SAGE_forward (\<lambda>h. max 0 h) (SAGE_init (\<lambda>i k a b h. int i * h + int k * b) 2 3)
     [1, - 2, 3] (- 5 :: int) = - 6
 \<and> Model_forward (\<lambda>h. max 0 h) (Model_init (\<lambda>i k a b h. int i * h + int k * b) 2 3 5)
     [1, - 2, 3] (- 5 :: int) = Inr (- 10)"
proof -
  define conv :: "nat \<Rightarrow> nat \<Rightarrow> string \<Rightarrow> (int, int) layer"
    where "conv = (\<lambda>i k a b h. int i * h + int k * b)"
  have "length (layers (SAGE_init conv 2 3)) \<le> length [1, - 2, 3 :: int] \<longrightarrow>
      SAGE_forward (\<lambda>h. max 0 h) (SAGE_init conv 2 3) [1, - 2, 3] (- 5)
        = layerwise (\<lambda>h. max 0 h) (layers (SAGE_init conv 2 3)) [1, - 2, 3] (- 5)"
    by (rule forward_layerwise [THEN conjunct1])
  then have sage: "SAGE_forward (\<lambda>h. max 0 h) (SAGE_init conv 2 3) [1, - 2, 3] (- 5) = - 6"
    by (simp add: conv_def SAGE_init_def layerwise_def layer_step_def Let_def upt_rec
        numeral_2_eq_2)
  have "2 \<le> length [1, - 2, 3 :: int] \<longrightarrow>
      Model_forward (\<lambda>h. max 0 h) (Model_init conv 2 3 5) [1, - 2, 3] (- 5)
        = Inr (layerwise (\<lambda>h. max 0 h)
            [conv1 (Model_init conv 2 3 5), conv2 (Model_init conv 2 3 5)] [1, - 2, 3] (- 5))
    \<and> Model_forward (\<lambda>h. max 0 h) (Model_init conv 2 3 5) [1, - 2, 3] (- 5)
        = Model_forward (\<lambda>h. max 0 h) (Model_init conv 2 3 5) (take 2 [1, - 2, 3]) (- 5)"
    by (rule forward_layerwise [THEN conjunct2, THEN conjunct2, THEN conjunct1])
  then have model:
    "Model_forward (\<lambda>h. max 0 h) (Model_init conv 2 3 5) [1, - 2, 3] (- 5) = Inr (- 10)"
    by (simp add: conv_def Model_init_def layerwise_def layer_step_def Let_def upt_rec
        numeral_2_eq_2)
  from sage model show ?thesis
    unfolding conv_def by simp
qed

subsection \<open>The import guard\<close>

lemmas guard_defs = import_guard_walkthrough_def import_guard_link_prediction_def
  import_guard_node_classification_def except_ImportError_def import_as_def
  print_installed_def print_def

text \<open>
  Claim C1. In the import guard of every notebook: when \<open>import dgl.graphbolt\<close> raises
  an \<open>ImportError\<close> (the class or a subclass), the guard completes without an
  exception, \<open>installed\<close> is \<open>False\<close>, and the error followed by \<open>DGL not found!\<close> is
  printed; when the imports succeed, \<open>installed\<close> is \<open>True\<close> and \<open>DGL installed!\<close> is
  printed. In the two training notebooks \<open>import dgl.graphbolt\<close> runs once \<open>import dgl\<close>
  has succeeded.
\<close>

theorem import_guard_outcomes:
  "(imp ''dgl.graphbolt'' = Raised e \<and> isinstance_ImportError e \<longrightarrow>
      import_guard_walkthrough imp s =
        Inr (s\<lparr>installed := Some False, stdout := stdout s @ [str e, ''DGL not found!'']\<rparr>))
 \<and> (imp ''dgl.graphbolt'' = Imported \<longrightarrow>
      import_guard_walkthrough imp s =
        Inr (s\<lparr>names := names s @ [''gb''], installed := Some True,
               stdout := stdout s @ [''DGL installed!'']\<rparr>))
 \<and> (\<forall>guard \<in> {import_guard_link_prediction, import_guard_node_classification}.
      (imp ''dgl'' = Imported \<and> imp ''dgl.graphbolt'' = Raised e \<and> isinstance_ImportError e \<longrightarrow>
         guard imp s =
           Inr (s\<lparr>names := names s @ [''dgl''], installed := Some False,
                  stdout := stdout s @ [str e, ''DGL not found!'']\<rparr>))
    \<and> (imp ''dgl'' = Imported \<and> imp ''dgl.graphbolt'' = Imported \<longrightarrow>
         guard imp s =
           Inr (s\<lparr>names := names s @ [''dgl'', ''gb''], installed := Some True,
                  stdout := stdout s @ [''DGL installed!'']\<rparr>)))"
  by (simp add: guard_defs)


theorem import_guard_outcomes_witness:
  "import_guard_walkthrough
     (\<lambda>m. Raised (Exc (ImportErrorSubclass ''ModuleNotFoundError'') ''No module named dgl''))
     \<lparr>names = [], installed = None, stdout = []\<rparr>
   = Inr \<lparr>names = [], installed = Some False,
          stdout = [''No module named dgl'', ''DGL not found!'']\<rparr>
 \<and> import_guard_link_prediction
     (\<lambda>m. if m = ''dgl'' then Imported
           else Raised (Exc ImportError ''cannot import name graphbolt''))
     \<lparr>names = [], installed = None, stdout = []\<rparr>
   = Inr \<lparr>names = [''dgl''], installed = Some False,
          stdout = [''cannot import name graphbolt'', ''DGL not found!'']\<rparr>
 \<and> import_guard_node_classification (\<lambda>m. Imported)
     \<lparr>names = [], installed = None, stdout = []\<rparr>
   = Inr \<lparr>names = [''dgl'', ''gb''], installed = Some True, stdout = [''DGL installed!'']\<rparr>"
  using
    import_guard_outcomes
      [of "\<lambda>m. Raised (Exc (ImportErrorSubclass ''ModuleNotFoundError'') ''No module named dgl'')"
          "Exc (ImportErrorSubclass ''ModuleNotFoundError'') ''No module named dgl''"
          "\<lparr>names = [], installed = None, stdout = []\<rparr>"]
    import_guard_outcomes
      [of "\<lambda>m. if m = ''dgl'' then Imported
                else Raised (Exc ImportError ''cannot import name graphbolt'')"
          "Exc ImportError ''cannot import name graphbolt''"
          "\<lparr>names = [], installed = None, stdout = []\<rparr>"]
    import_guard_outcomes
      [of "\<lambda>m. Imported" "Exc ImportError []" "\<lparr>names = [], installed = None, stdout = []\<rparr>"]
  by simp

subsection \<open>The notebook format\<close>

text \<open>
  Claim C7. Every notebook of the repository has \<open>nbformat\<close> 4 and each of its cells
  is a markdown cell or a code cell. All that the repository defines is two classes
  with two methods each and one function, and the modules it imports are the libraries
  listed (no argument parser and no network module is among them).
\<close>

theorem notebooks_nbformat4_markdown_code:
  "(\<forall>nb \<in> set repository.
      nbformat nb = 4
    \<and> (\<forall>c \<in> set (cells nb). cell_type c = ''markdown'' \<or> cell_type c = ''code''))
 \<and> map nb_defined repository =
      [[], [''SAGE'', ''__init__'', ''forward'', ''to_binary_link_dgl_computing_pack''],
       [''Model'', ''__init__'', ''forward'']]
 \<and> map nb_imports repository =
      [[''os'', ''torch'', ''dgl.graphbolt''],
       [''os'', ''torch'', ''numpy'', ''dgl'', ''dgl.graphbolt'', ''dgl.nn'', ''torch.nn'',
        ''torch.nn.functional'', ''tqdm'', ''sklearn.metrics''],
       [''os'', ''torch'', ''numpy'', ''dgl'', ''dgl.graphbolt'', ''torch.nn'',
        ''torch.nn.functional'', ''dgl.nn'', ''sklearn.metrics'', ''tqdm'']]"
  by code_simp

theorem notebooks_nbformat4_markdown_code_witness:
  "nbformat link_prediction = 4
 \<and> list_all (\<lambda>c. cell_type c = ''markdown'' \<or> cell_type c = ''code'') (cells link_prediction)"
proof -
  have "\<forall>nb \<in> set repository.
      nbformat nb = 4
    \<and> (\<forall>c \<in> set (cells nb). cell_type c = ''markdown'' \<or> cell_type c = ''code'')"
    by (rule notebooks_nbformat4_markdown_code [THEN conjunct1])
  then have "nbformat link_prediction = 4
    \<and> (\<forall>c \<in> set (cells link_prediction). cell_type c = ''markdown'' \<or> cell_type c = ''code'')"
    by (simp add: repository_def)
  then show ?thesis
    by (simp add: list_all_iff)
qed

subsection \<open>Error handling\<close>

text \<open>
  Claim C2 as stated fails: the repository holds three import guards, one in each
  notebook, not exactly one.
\<close>

theorem one_import_guard_counterexample:
  "\<not> length (concat (map try_stmts repository)) = 1"
  by code_simp

text \<open>
  Claim C2, amended. Each notebook contains exactly one \<open>try\<close> statement, its import
  guard: the body imports \<open>dgl.graphbolt\<close> (after \<open>dgl\<close> in the two training notebooks)
  and sets \<open>installed = True\<close>, and the one handler catches \<open>ImportError\<close>, sets
  \<open>installed = False\<close> and prints the error; there is no \<open>else\<close> and no \<open>finally\<close>.
  No \<open>raise\<close> and no \<open>assert\<close> statement occurs in the repository.
\<close>

theorem one_import_guard_per_notebook:
  "try_stmts walkthrough =
     [Try [Import ''dgl.graphbolt'' (Some ''gb''),
           Assign (Name ''installed'') (Constant (CBool True))]
        [ExceptHandler (Some (Name ''ImportError'')) (Some ''error'')
           [Assign (Name ''installed'') (Constant (CBool False)),
            Expr (Call (Name ''print'') [Name ''error''] [])]] [] []]
 \<and> try_stmts link_prediction =
     [Try [Import ''dgl'' None, Import ''dgl.graphbolt'' (Some ''gb''),
           Assign (Name ''installed'') (Constant (CBool True))]
        [ExceptHandler (Some (Name ''ImportError'')) (Some ''error'')
           [Assign (Name ''installed'') (Constant (CBool False)),
            Expr (Call (Name ''print'') [Name ''error''] [])]] [] []]
 \<and> try_stmts node_classification = try_stmts link_prediction
 \<and> concat (map (\<lambda>nb. filter is_Raise_or_Assert (nb_stmts nb)) repository) = []"
  by code_simp

theorem one_import_guard_per_notebook_witness:
  "length (try_stmts walkthrough) = 1 \<and> length (try_stmts link_prediction) = 1
 \<and> length (try_stmts node_classification) = 1"
  using one_import_guard_per_notebook [THEN conjunct1]
    one_import_guard_per_notebook [THEN conjunct2, THEN conjunct1]
    one_import_guard_per_notebook [THEN conjunct2, THEN conjunct2, THEN conjunct1]
  by simp

subsection \<open>Data pipelines\<close>

lemma walkthrough_events:
  "nb_events walkthrough =
     [Stage ''ItemSampler'', Iterate, Stage ''sample_uniform_negative'', Iterate,
      Stage ''sample_neighbor'', Iterate, Stage ''fetch_feature'', Iterate,
      Stage ''to_dgl'', Iterate, Stage ''copy_to'', Iterate, Iterate]"
  by code_simp

lemma link_prediction_events:
  "nb_events link_prediction =
     [Stage ''ItemSampler'', Stage ''sample_uniform_negative'', Stage ''sample_neighbor'',
      Stage ''fetch_feature'', Stage ''to_dgl'', Stage ''copy_to'',
      Load ''train_dataloader'', Use ''train_dataloader'', Use ''train_dataloader'',
      Stage ''ItemSampler'', Stage ''sample_neighbor'', Stage ''fetch_feature'',
      Stage ''to_dgl'', Stage ''copy_to'', Load ''eval_dataloader'',
      Use ''eval_dataloader'']"
  by code_simp

lemma node_classification_events:
  "nb_events node_classification =
     [Stage ''ItemSampler'', Stage ''sample_neighbor'', Stage ''fetch_feature'',
      Stage ''to_dgl'', Stage ''copy_to'', Load ''train_dataloader'',
      Use ''train_dataloader'',
      Stage ''ItemSampler'', Stage ''sample_neighbor'', Stage ''fetch_feature'',
      Stage ''to_dgl'', Stage ''copy_to'', Load ''valid_dataloader'',
      Use ''train_dataloader'', Use ''valid_dataloader'']"
  by code_simp

text \<open>
  Claim C3 as stated fails on the walkthrough notebook: its pipeline is iterated
  (\<open>next(iter(datapipe))\<close>) right after \<open>ItemSampler\<close> and after every further stage,
  not only once all stages are chained.
\<close>

theorem pipeline_iterated_last_counterexample:
  "\<not> list_all chained_then_used (pipelines (nb_events walkthrough))"
  unfolding walkthrough_events
  by (simp add: chained_then_used_def fixed_order_def canonical_stages_def stage_names_def)

text \<open>
  Claim C3, amended. Each of the five pipelines of the notebooks chains its stages in
  the fixed order (\<open>ItemSampler\<close>, negative sampling when present, neighbor sampling,
  feature fetching, \<open>to_dgl\<close>, \<open>copy_to\<close>). In the link prediction and node
  classification notebooks all stages are chained before the pipeline is used, the
  pipeline is never iterated itself but handed to \<open>gb.MultiProcessDataLoader\<close>, and
  every use of a data loader follows its construction. In the walkthrough notebook the
  pipeline is iterated after each stage is added.
\<close>

theorem pipeline_stage_order:
  "(\<forall>nb \<in> set repository. \<forall>p \<in> set (pipelines (nb_events nb)). fixed_order (stage_names p))
 \<and> map (\<lambda>nb. length (pipelines (nb_events nb))) repository = [1, 2, 2]
 \<and> (\<forall>nb \<in> set [link_prediction, node_classification].
       (\<forall>p \<in> set (pipelines (nb_events nb)). chained_then_used p)
     \<and> loads_before_uses [] (nb_events nb)
     \<and> Iterate \<notin> set (nb_events nb) \<and> Mention \<notin> set (nb_events nb))
 \<and> pipelines (nb_events walkthrough) =
      [[Stage ''ItemSampler'', Iterate, Stage ''sample_uniform_negative'', Iterate,
        Stage ''sample_neighbor'', Iterate, Stage ''fetch_feature'', Iterate,
        Stage ''to_dgl'', Iterate, Stage ''copy_to'', Iterate, Iterate]]"
  by (simp add: repository_def walkthrough_events link_prediction_events
      node_classification_events chained_then_used_def fixed_order_def canonical_stages_def
      stage_names_def)

theorem pipeline_stage_order_witness:
  "length (pipelines (nb_events link_prediction)) = 2
 \<and> list_all chained_then_used (pipelines (nb_events link_prediction))
 \<and> loads_before_uses [] (nb_events link_prediction)"
proof -
  have "map (\<lambda>nb. length (pipelines (nb_events nb))) repository = [1, 2, 2]"
    by (rule pipeline_stage_order [THEN conjunct2, THEN conjunct1])
  then have n: "length (pipelines (nb_events link_prediction)) = 2"
    by (simp add: repository_def)
  have "\<forall>nb \<in> set [link_prediction, node_classification].
       (\<forall>p \<in> set (pipelines (nb_events nb)). chained_then_used p)
     \<and> loads_before_uses [] (nb_events nb)
     \<and> Iterate \<notin> set (nb_events nb) \<and> Mention \<notin> set (nb_events nb)"
    by (rule pipeline_stage_order [THEN conjunct2, THEN conjunct2, THEN conjunct1])
  then have "(\<forall>p \<in> set (pipelines (nb_events link_prediction)). chained_then_used p)
     \<and> loads_before_uses [] (nb_events link_prediction)"
    by simp
  with n show ?thesis
    by (simp add: list_all_iff)
qed

subsection \<open>Data loaders and item samplers\<close>

text \<open>
  Claim C6. Every \<open>gb.MultiProcessDataLoader\<close> that the repository constructs (two in
  each training notebook) is called on the pipeline with \<open>num_workers=0\<close> and nothing
  else, and no notebook imports a module for threads, processes, asynchronous tasks or
  synchronisation: loading and device transfer are calls into the library.
\<close>

theorem dataloaders_num_workers_zero:
  "(\<forall>nb \<in> set repository.
      \<forall>(args, kws) \<in> set (calls_to ''gb'' ''MultiProcessDataLoader'' nb).
        args = [Name ''datapipe''] \<and> kws = [(''num_workers'', Constant (CInt 0))])
 \<and> map (\<lambda>nb. length (calls_to ''gb'' ''MultiProcessDataLoader'' nb)) repository = [0, 2, 2]
 \<and> (\<forall>nb \<in> set repository. \<forall>m \<in> set (nb_imports nb). m \<notin> set concurrency_modules)"
  by code_simp

theorem dataloaders_num_workers_zero_witness:
  "length (calls_to ''gb'' ''MultiProcessDataLoader'' node_classification) = 2
 \<and> list_all (\<lambda>(args, kws). kws = [(''num_workers'', Constant (CInt 0))])
      (calls_to ''gb'' ''MultiProcessDataLoader'' node_classification)"
proof -
  have "map (\<lambda>nb. length (calls_to ''gb'' ''MultiProcessDataLoader'' nb)) repository
      = [0, 2, 2]"
    by (rule dataloaders_num_workers_zero [THEN conjunct2, THEN conjunct1])
  then have n: "length (calls_to ''gb'' ''MultiProcessDataLoader'' node_classification) = 2"
    by (simp add: repository_def)
  have "\<forall>nb \<in> set repository.
      \<forall>(args, kws) \<in> set (calls_to ''gb'' ''MultiProcessDataLoader'' nb).
        args = [Name ''datapipe''] \<and> kws = [(''num_workers'', Constant (CInt 0))]"
    by (rule dataloaders_num_workers_zero [THEN conjunct1])
  then have "\<forall>(args, kws) \<in> set (calls_to ''gb'' ''MultiProcessDataLoader'' node_classification).
        args = [Name ''datapipe''] \<and> kws = [(''num_workers'', Constant (CInt 0))]"
    by (simp add: repository_def)
  then have "list_all (\<lambda>(args, kws). kws = [(''num_workers'', Constant (CInt 0))])
      (calls_to ''gb'' ''MultiProcessDataLoader'' node_classification)"
    unfolding list_all_iff by fast
  with n show ?thesis ..
qed

lemma link_prediction_item_samplers:
  "calls_to ''gb'' ''ItemSampler'' link_prediction =
     [([Name ''train_set''],
       [(''batch_size'', Constant (CInt 256)), (''shuffle'', Constant (CBool True))]),
      ([Name ''test_set''],
       [(''batch_size'', Constant (CInt 256)), (''shuffle'', Constant (CBool False))])]"
  by code_simp

lemma node_classification_item_samplers:
  "calls_to ''gb'' ''ItemSampler'' node_classification =
     [([Name ''train_set''],
       [(''batch_size'', Constant (CInt 1024)), (''shuffle'', Constant (CBool True))]),
      ([Name ''valid_set''],
       [(''batch_size'', Constant (CInt 1024)), (''shuffle'', Constant (CBool False))])]"
  by code_simp

lemma item_sampler_sets:
  "assigned ''train_set'' link_prediction =
      [Attribute (Subscript (Attribute (Name ''dataset'') ''tasks'') (Constant (CInt 1)))
         ''train_set'']
 \<and> assigned ''test_set'' link_prediction =
      [Attribute (Subscript (Attribute (Name ''dataset'') ''tasks'') (Constant (CInt 1)))
         ''test_set'']
 \<and> assigned ''train_set'' node_classification =
      [Attribute (Subscript (Attribute (Name ''dataset'') ''tasks'') (Constant (CInt 0)))
         ''train_set'']
 \<and> assigned ''valid_set'' node_classification =
      [Attribute (Subscript (Attribute (Name ''dataset'') ''tasks'') (Constant (CInt 0)))
         ''validation_set'']"
  by code_simp

text \<open>
  Claim C10. In the link prediction and node classification notebooks every
  \<open>gb.ItemSampler\<close> is built over \<open>train_set\<close>, \<open>valid_set\<close> or \<open>test_set\<close>; over
  \<open>train_set\<close> it is called with \<open>shuffle=True\<close>, over \<open>valid_set\<close> or \<open>test_set\<close> with
  \<open>shuffle=False\<close>. The three variables are read from the attributes \<open>train_set\<close>,
  \<open>validation_set\<close> and \<open>test_set\<close> of the dataset's task.
\<close>

theorem item_sampler_shuffle:
  "(\<forall>nb \<in> set [link_prediction, node_classification].
      \<forall>(args, kws) \<in> set (calls_to ''gb'' ''ItemSampler'' nb).
         (args = [Name ''train_set''] \<longrightarrow>
            map_of kws ''shuffle'' = Some (Constant (CBool True)))
       \<and> (args = [Name ''valid_set''] \<or> args = [Name ''test_set''] \<longrightarrow>
            map_of kws ''shuffle'' = Some (Constant (CBool False)))
       \<and> (args = [Name ''train_set''] \<or> args = [Name ''valid_set'']
            \<or> args = [Name ''test_set'']))
 \<and> map (\<lambda>nb. map fst (calls_to ''gb'' ''ItemSampler'' nb))
      [link_prediction, node_classification] =
      [[[Name ''train_set''], [Name ''test_set'']], [[Name ''train_set''], [Name ''valid_set'']]]
 \<and> assigned ''train_set'' link_prediction =
      [Attribute (Subscript (Attribute (Name ''dataset'') ''tasks'') (Constant (CInt 1)))
         ''train_set'']
 \<and> assigned ''test_set'' link_prediction =
      [Attribute (Subscript (Attribute (Name ''dataset'') ''tasks'') (Constant (CInt 1)))
         ''test_set'']
 \<and> assigned ''train_set'' node_classification =
      [Attribute (Subscript (Attribute (Name ''dataset'') ''tasks'') (Constant (CInt 0)))
         ''train_set'']
 \<and> assigned ''valid_set'' node_classification =
      [Attribute (Subscript (Attribute (Name ''dataset'') ''tasks'') (Constant (CInt 0)))
         ''validation_set'']"
  using item_sampler_sets
  by (simp add: link_prediction_item_samplers node_classification_item_samplers)

theorem item_sampler_shuffle_witness:
  "map (\<lambda>(args, kws). (args, map_of kws ''shuffle''))
     (calls_to ''gb'' ''ItemSampler'' link_prediction) =
     [([Name ''train_set''], Some (Constant (CBool True))),
      ([Name ''test_set''], Some (Constant (CBool False)))]"
proof -
  have all: "\<forall>nb \<in> set [link_prediction, node_classification].
      \<forall>(args, kws) \<in> set (calls_to ''gb'' ''ItemSampler'' nb).
         (args = [Name ''train_set''] \<longrightarrow>
            map_of kws ''shuffle'' = Some (Constant (CBool True)))
       \<and> (args = [Name ''valid_set''] \<or> args = [Name ''test_set''] \<longrightarrow>
            map_of kws ''shuffle'' = Some (Constant (CBool False)))
       \<and> (args = [Name ''train_set''] \<or> args = [Name ''valid_set'']
            \<or> args = [Name ''test_set''])"
    by (rule item_sampler_shuffle [THEN conjunct1])
  have "\<forall>(args, kws) \<in> set (calls_to ''gb'' ''ItemSampler'' link_prediction).
         (args = [Name ''train_set''] \<longrightarrow>
            map_of kws ''shuffle'' = Some (Constant (CBool True)))
       \<and> (args = [Name ''valid_set''] \<or> args = [Name ''test_set''] \<longrightarrow>
            map_of kws ''shuffle'' = Some (Constant (CBool False)))
       \<and> (args = [Name ''train_set''] \<or> args = [Name ''valid_set'']
            \<or> args = [Name ''test_set''])"
    by (rule bspec [OF all]) simp
  then show ?thesis
    unfolding link_prediction_item_samplers by simp
qed

subsection \<open>Uses of item sets, graphs, feature stores and minibatches\<close>












subsection \<open>What the notebooks implement\<close>

text \<open>
  Claim C4 as stated fails: \<open>SAGE.forward\<close> in the link prediction notebook does not
  only sequence calls (it has a loop and a branch of its own), and the repository does
  implement failure handling (the import guards).
\<close>

theorem only_sequences_calls_counterexample:
  "\<not> list_all (\<lambda>(n, b). sequences_calls b) (nb_fundefs link_prediction)
 \<and> concat (map try_stmts repository) \<noteq> []"
  by code_simp

lemma link_prediction_fundefs:
  "nb_fundefs link_prediction =
     [(''__init__'',
        [Expr
          (Call (Attribute (Call (Name ''super'') [] []) ''__init__'') [] []),
         Assign (Attribute (Name ''self'') ''layers'')
          (Call (Attribute (Name ''nn'') ''ModuleList'') [] []),
         Expr
          (Call (Attribute (Attribute (Name ''self'') ''layers'') ''append'')
            [Call (Attribute (Name ''dglnn'') ''SAGEConv'')
              [Name ''in_size'', Name ''hidden_size'', Constant (CStr ''mean'')]
              []]
            []),
         Expr
          (Call (Attribute (Attribute (Name ''self'') ''layers'') ''append'')
            [Call (Attribute (Name ''dglnn'') ''SAGEConv'')
              [Name ''hidden_size'', Name ''hidden_size'',
               Constant (CStr ''mean'')]
              []]
            []),
         Assign (Attribute (Name ''self'') ''hidden_size'')
          (Name ''hidden_size''),
         Assign (Attribute (Name ''self'') ''predictor'')
          (Call (Attribute (Name ''nn'') ''Sequential'')
            [Call (Attribute (Name ''nn'') ''Linear'')
              [Name ''hidden_size'', Name ''hidden_size''] [],
             Call (Attribute (Name ''nn'') ''ReLU'') [] [],
             Call (Attribute (Name ''nn'') ''Linear'')
              [Name ''hidden_size'', Constant (CInt 1)] []]
            [])]),
       (''forward'',
        [Assign (Name ''hidden_x'') (Name ''x''),
         For (Tuple [Name ''layer_idx'', Tuple [Name ''layer'', Name ''block'']])
          (Call (Name ''enumerate'')
            [Call (Name ''zip'')
              [Attribute (Name ''self'') ''layers'', Name ''blocks''] []]
            [])
          [Assign (Name ''hidden_x'')
            (Call (Name ''layer'') [Name ''block'', Name ''hidden_x''] []),
           Assign (Name ''is_last_layer'')
            (Compare (Name ''layer_idx'') Eq
              (BinOp
                (Call (Name ''len'') [Attribute (Name ''self'') ''layers''] [])
                Sub (Constant (CInt 1)))),
           If_stmt (UnaryOp Not_op (Name ''is_last_layer''))
            [Assign (Name ''hidden_x'')
              (Call (Attribute (Name ''F'') ''relu'') [Name ''hidden_x''] [])]
            []],
         Return (Some (Name ''hidden_x''))]),
       (''to_binary_link_dgl_computing_pack'',
        [Expr
          (Constant
            (CStr
              ''Convert the minibatch to a training pair and a label tensor.'')),
         Assign (Tuple [Name ''pos_src'', Name ''pos_dst''])
          (Attribute (Name ''data'') ''positive_node_pairs''),
         Assign (Tuple [Name ''neg_src'', Name ''neg_dst''])
          (Attribute (Name ''data'') ''negative_node_pairs''),
         Assign (Name ''node_pairs'')
          (Tuple
            [Call (Attribute (Name ''torch'') ''cat'')
              [Tuple [Name ''pos_src'', Name ''neg_src'']]
              [(''dim'', Constant (CInt 0))],
             Call (Attribute (Name ''torch'') ''cat'')
              [Tuple [Name ''pos_dst'', Name ''neg_dst'']]
              [(''dim'', Constant (CInt 0))]]),
         Assign (Name ''pos_label'')
          (Call (Attribute (Name ''torch'') ''ones_like'') [Name ''pos_src'']
            []),
         Assign (Name ''neg_label'')
          (Call (Attribute (Name ''torch'') ''zeros_like'') [Name ''neg_src'']
            []),
         Assign (Name ''labels'')
          (Call (Attribute (Name ''torch'') ''cat'')
            [List [Name ''pos_label'', Name ''neg_label'']]
            [(''dim'', Constant (CInt 0))]),
         Return
          (Some
            (Tuple
              [Name ''node_pairs'',
               Call (Attribute (Name ''labels'') ''float'') [] []]))])]"
  by code_simp

lemma node_classification_fundefs:
  "nb_fundefs node_classification =
     [(''__init__'',
        [Expr
          (Call
            (Attribute (Call (Name ''super'') [Name ''Model'', Name ''self''] [])
              ''__init__'')
            [] []),
         Assign (Attribute (Name ''self'') ''conv1'')
          (Call (Name ''SAGEConv'') [Name ''in_feats'', Name ''h_feats'']
            [(''aggregator_type'', Constant (CStr ''mean''))]),
         Assign (Attribute (Name ''self'') ''conv2'')
          (Call (Name ''SAGEConv'') [Name ''h_feats'', Name ''num_classes'']
            [(''aggregator_type'', Constant (CStr ''mean''))]),
         Assign (Attribute (Name ''self'') ''h_feats'') (Name ''h_feats'')]),
       (''forward'',
        [Assign (Name ''h'')
          (Call (Attribute (Name ''self'') ''conv1'')
            [Subscript (Name ''mfgs'') (Constant (CInt 0)), Name ''x''] []),
         Assign (Name ''h'')
          (Call (Attribute (Name ''F'') ''relu'') [Name ''h''] []),
         Assign (Name ''h'')
          (Call (Attribute (Name ''self'') ''conv2'')
            [Subscript (Name ''mfgs'') (Constant (CInt 1)), Name ''h''] []),
         Return (Some (Name ''h''))])]"
  by code_simp

lemma walkthrough_fundefs:
  "nb_fundefs walkthrough = []"
  by code_simp

lemma notebook_classdefs:
  "map nb_classdefs repository =
     [[], [(''SAGE'', [Attribute (Name ''nn'') ''Module''], [''__init__'', ''forward''])],
      [(''Model'', [Attribute (Name ''nn'') ''Module''], [''__init__'', ''forward''])]]"
  by code_simp

lemma link_prediction_callees:
  "map (\<lambda>(n, b). (n, callees b)) (nb_fundefs link_prediction) =
     [(''__init__'',
        [Attribute (Call (Name ''super'') [] []) ''__init__'', Name ''super'',
         Attribute (Name ''nn'') ''ModuleList'',
         Attribute (Attribute (Name ''self'') ''layers'') ''append'',
         Attribute (Name ''dglnn'') ''SAGEConv'',
         Attribute (Attribute (Name ''self'') ''layers'') ''append'',
         Attribute (Name ''dglnn'') ''SAGEConv'',
         Attribute (Name ''nn'') ''Sequential'',
         Attribute (Name ''nn'') ''Linear'', Attribute (Name ''nn'') ''ReLU'',
         Attribute (Name ''nn'') ''Linear'']),
       (''forward'',
        [Name ''enumerate'', Name ''zip'', Name ''layer'', Name ''len'',
         Attribute (Name ''F'') ''relu'']),
       (''to_binary_link_dgl_computing_pack'',
        [Attribute (Name ''torch'') ''cat'', Attribute (Name ''torch'') ''cat'',
         Attribute (Name ''torch'') ''ones_like'',
         Attribute (Name ''torch'') ''zeros_like'',
         Attribute (Name ''torch'') ''cat'',
         Attribute (Name ''labels'') ''float''])]"
  by code_simp

lemma node_classification_callees:
  "map (\<lambda>(n, b). (n, callees b)) (nb_fundefs node_classification) =
     [(''__init__'',
        [Attribute (Call (Name ''super'') [Name ''Model'', Name ''self''] [])
          ''__init__'',
         Name ''super'', Name ''SAGEConv'', Name ''SAGEConv'']),
       (''forward'',
        [Attribute (Name ''self'') ''conv1'', Attribute (Name ''F'') ''relu'',
         Attribute (Name ''self'') ''conv2''])]"
  by code_simp

lemma no_own_calls:
  "\<forall>nb \<in> set repository. \<forall>(n, b) \<in> set (nb_fundefs nb). \<not> list_ex (own_call nb) (callees b)"
  by code_simp

lemma which_sequence_calls:
  "map (\<lambda>nb. map (\<lambda>(n, b). (n, sequences_calls b)) (nb_fundefs nb)) repository =
     [[],
      [(''__init__'', True), (''forward'', False),
       (''to_binary_link_dgl_computing_pack'', True)],
      [(''__init__'', True), (''forward'', True)]]"
  by code_simp

lemma training_import_bindings:
  "nb_import_bindings link_prediction =
     [(''os'', ''os''), (''torch'', ''torch''), (''np'', ''numpy''),
       (''dgl'', ''dgl''), (''gb'', ''dgl.graphbolt''), (''dglnn'', ''dgl.nn''),
       (''nn'', ''torch.nn''), (''F'', ''torch.nn.functional''),
       (''tqdm'', ''tqdm''),
       (''roc_auc_score'', ''sklearn.metrics.roc_auc_score'')]
 \<and> nb_import_bindings node_classification =
     [(''os'', ''os''), (''torch'', ''torch''), (''np'', ''numpy''),
       (''dgl'', ''dgl''), (''gb'', ''dgl.graphbolt''), (''nn'', ''torch.nn''),
       (''F'', ''torch.nn.functional''), (''SAGEConv'', ''dgl.nn.SAGEConv''),
       (''sklearn'', ''sklearn.metrics''), (''tqdm'', ''tqdm'')]"
  by code_simp

lemma try_counts:
  "map (\<lambda>nb. length (try_stmts nb)) repository = [1, 1, 1]"
  by code_simp

text \<open>
  Claim C4, amended. The notebooks define two classes, \<open>SAGE\<close> and \<open>Model\<close>, both
  subclasses of \<open>nn.Module\<close> with the methods \<open>__init__\<close> and \<open>forward\<close>, and the
  function \<open>to_binary_link_dgl_computing_pack\<close>; the walkthrough notebook defines
  nothing. The bodies of the five functions are the ones stated, and so are the
  expressions they call, in order: members of the imported modules (\<open>nn\<close>, \<open>dglnn\<close>,
  \<open>torch\<close>, \<open>F\<close>, \<open>SAGEConv\<close>), the builtins \<open>super\<close>, \<open>enumerate\<close>, \<open>zip\<close> and
  \<open>len\<close>, \<open>super().__init__\<close>, and objects that the bodies build from the library:
  \<open>self.layers.append\<close> (\<open>self.layers = nn.ModuleList()\<close>), \<open>layer\<close> (an element of
  \<open>self.layers\<close>), \<open>self.conv1\<close> and \<open>self.conv2\<close> (set to \<open>SAGEConv(...)\<close>) and
  \<open>labels.float\<close> (\<open>labels = torch.cat(...)\<close>). None is a function, class or method
  that a notebook defines. All functions but \<open>SAGE.forward\<close> are straight-line
  sequences of calls; \<open>SAGE.forward\<close> loops over \<open>enumerate(zip(self.layers, blocks))\<close>,
  calls the layer, computes \<open>layer_idx == len(self.layers) - 1\<close> and applies \<open>F.relu\<close>
  when that is false. The only failure handling is the one import guard of each
  notebook.
\<close>

theorem functions_sequence_library_calls:
  "map nb_classdefs repository =
     [[], [(''SAGE'', [Attribute (Name ''nn'') ''Module''], [''__init__'', ''forward''])],
      [(''Model'', [Attribute (Name ''nn'') ''Module''], [''__init__'', ''forward''])]]
 \<and> nb_fundefs walkthrough = []
 \<and> nb_fundefs link_prediction =
     [(''__init__'',
        [Expr
          (Call (Attribute (Call (Name ''super'') [] []) ''__init__'') [] []),
         Assign (Attribute (Name ''self'') ''layers'')
          (Call (Attribute (Name ''nn'') ''ModuleList'') [] []),
         Expr
          (Call (Attribute (Attribute (Name ''self'') ''layers'') ''append'')
            [Call (Attribute (Name ''dglnn'') ''SAGEConv'')
              [Name ''in_size'', Name ''hidden_size'', Constant (CStr ''mean'')]
              []]
            []),
         Expr
          (Call (Attribute (Attribute (Name ''self'') ''layers'') ''append'')
            [Call (Attribute (Name ''dglnn'') ''SAGEConv'')
              [Name ''hidden_size'', Name ''hidden_size'',
               Constant (CStr ''mean'')]
              []]
            []),
         Assign (Attribute (Name ''self'') ''hidden_size'')
          (Name ''hidden_size''),
         Assign (Attribute (Name ''self'') ''predictor'')
          (Call (Attribute (Name ''nn'') ''Sequential'')
            [Call (Attribute (Name ''nn'') ''Linear'')
              [Name ''hidden_size'', Name ''hidden_size''] [],
             Call (Attribute (Name ''nn'') ''ReLU'') [] [],
             Call (Attribute (Name ''nn'') ''Linear'')
              [Name ''hidden_size'', Constant (CInt 1)] []]
            [])]),
       (''forward'',
        [Assign (Name ''hidden_x'') (Name ''x''),
         For (Tuple [Name ''layer_idx'', Tuple [Name ''layer'', Name ''block'']])
          (Call (Name ''enumerate'')
            [Call (Name ''zip'')
              [Attribute (Name ''self'') ''layers'', Name ''blocks''] []]
            [])
          [Assign (Name ''hidden_x'')
            (Call (Name ''layer'') [Name ''block'', Name ''hidden_x''] []),
           Assign (Name ''is_last_layer'')
            (Compare (Name ''layer_idx'') Eq
              (BinOp
                (Call (Name ''len'') [Attribute (Name ''self'') ''layers''] [])
                Sub (Constant (CInt 1)))),
           If_stmt (UnaryOp Not_op (Name ''is_last_layer''))
            [Assign (Name ''hidden_x'')
              (Call (Attribute (Name ''F'') ''relu'') [Name ''hidden_x''] [])]
            []],
         Return (Some (Name ''hidden_x''))]),
       (''to_binary_link_dgl_computing_pack'',
        [Expr
          (Constant
            (CStr
              ''Convert the minibatch to a training pair and a label tensor.'')),
         Assign (Tuple [Name ''pos_src'', Name ''pos_dst''])
          (Attribute (Name ''data'') ''positive_node_pairs''),
         Assign (Tuple [Name ''neg_src'', Name ''neg_dst''])
          (Attribute (Name ''data'') ''negative_node_pairs''),
         Assign (Name ''node_pairs'')
          (Tuple
            [Call (Attribute (Name ''torch'') ''cat'')
              [Tuple [Name ''pos_src'', Name ''neg_src'']]
              [(''dim'', Constant (CInt 0))],
             Call (Attribute (Name ''torch'') ''cat'')
              [Tuple [Name ''pos_dst'', Name ''neg_dst'']]
              [(''dim'', Constant (CInt 0))]]),
         Assign (Name ''pos_label'')
          (Call (Attribute (Name ''torch'') ''ones_like'') [Name ''pos_src'']
            []),
         Assign (Name ''neg_label'')
          (Call (Attribute (Name ''torch'') ''zeros_like'') [Name ''neg_src'']
            []),
         Assign (Name ''labels'')
          (Call (Attribute (Name ''torch'') ''cat'')
            [List [Name ''pos_label'', Name ''neg_label'']]
            [(''dim'', Constant (CInt 0))]),
         Return
          (Some
            (Tuple
              [Name ''node_pairs'',
               Call (Attribute (Name ''labels'') ''float'') [] []]))])]
 \<and> nb_fundefs node_classification =
     [(''__init__'',
        [Expr
          (Call
            (Attribute (Call (Name ''super'') [Name ''Model'', Name ''self''] [])
              ''__init__'')
            [] []),
         Assign (Attribute (Name ''self'') ''conv1'')
          (Call (Name ''SAGEConv'') [Name ''in_feats'', Name ''h_feats'']
            [(''aggregator_type'', Constant (CStr ''mean''))]),
         Assign (Attribute (Name ''self'') ''conv2'')
          (Call (Name ''SAGEConv'') [Name ''h_feats'', Name ''num_classes'']
            [(''aggregator_type'', Constant (CStr ''mean''))]),
         Assign (Attribute (Name ''self'') ''h_feats'') (Name ''h_feats'')]),
       (''forward'',
        [Assign (Name ''h'')
          (Call (Attribute (Name ''self'') ''conv1'')
            [Subscript (Name ''mfgs'') (Constant (CInt 0)), Name ''x''] []),
         Assign (Name ''h'')
          (Call (Attribute (Name ''F'') ''relu'') [Name ''h''] []),
         Assign (Name ''h'')
          (Call (Attribute (Name ''self'') ''conv2'')
            [Subscript (Name ''mfgs'') (Constant (CInt 1)), Name ''h''] []),
         Return (Some (Name ''h''))])]
 \<and> map (\<lambda>(n, b). (n, callees b)) (nb_fundefs link_prediction) =
     [(''__init__'',
        [Attribute (Call (Name ''super'') [] []) ''__init__'', Name ''super'',
         Attribute (Name ''nn'') ''ModuleList'',
         Attribute (Attribute (Name ''self'') ''layers'') ''append'',
         Attribute (Name ''dglnn'') ''SAGEConv'',
         Attribute (Attribute (Name ''self'') ''layers'') ''append'',
         Attribute (Name ''dglnn'') ''SAGEConv'',
         Attribute (Name ''nn'') ''Sequential'',
         Attribute (Name ''nn'') ''Linear'', Attribute (Name ''nn'') ''ReLU'',
         Attribute (Name ''nn'') ''Linear'']),
       (''forward'',
        [Name ''enumerate'', Name ''zip'', Name ''layer'', Name ''len'',
         Attribute (Name ''F'') ''relu'']),
       (''to_binary_link_dgl_computing_pack'',
        [Attribute (Name ''torch'') ''cat'', Attribute (Name ''torch'') ''cat'',
         Attribute (Name ''torch'') ''ones_like'',
         Attribute (Name ''torch'') ''zeros_like'',
         Attribute (Name ''torch'') ''cat'',
         Attribute (Name ''labels'') ''float''])]
 \<and> map (\<lambda>(n, b). (n, callees b)) (nb_fundefs node_classification) =
     [(''__init__'',
        [Attribute (Call (Name ''super'') [Name ''Model'', Name ''self''] [])
          ''__init__'',
         Name ''super'', Name ''SAGEConv'', Name ''SAGEConv'']),
       (''forward'',
        [Attribute (Name ''self'') ''conv1'', Attribute (Name ''F'') ''relu'',
         Attribute (Name ''self'') ''conv2''])]
 \<and> (\<forall>nb \<in> set repository. \<forall>(n, b) \<in> set (nb_fundefs nb).
       \<not> list_ex (own_call nb) (callees b))
 \<and> map (\<lambda>nb. map (\<lambda>(n, b). (n, sequences_calls b)) (nb_fundefs nb)) repository =
     [[],
      [(''__init__'', True), (''forward'', False),
       (''to_binary_link_dgl_computing_pack'', True)],
      [(''__init__'', True), (''forward'', True)]]
 \<and> nb_import_bindings link_prediction =
     [(''os'', ''os''), (''torch'', ''torch''), (''np'', ''numpy''),
       (''dgl'', ''dgl''), (''gb'', ''dgl.graphbolt''), (''dglnn'', ''dgl.nn''),
       (''nn'', ''torch.nn''), (''F'', ''torch.nn.functional''),
       (''tqdm'', ''tqdm''),
       (''roc_auc_score'', ''sklearn.metrics.roc_auc_score'')]
 \<and> nb_import_bindings node_classification =
     [(''os'', ''os''), (''torch'', ''torch''), (''np'', ''numpy''),
       (''dgl'', ''dgl''), (''gb'', ''dgl.graphbolt''), (''nn'', ''torch.nn''),
       (''F'', ''torch.nn.functional''), (''SAGEConv'', ''dgl.nn.SAGEConv''),
       (''sklearn'', ''sklearn.metrics''), (''tqdm'', ''tqdm'')]
 \<and> map (\<lambda>nb. length (try_stmts nb)) repository = [1, 1, 1]"
  using notebook_classdefs walkthrough_fundefs link_prediction_fundefs
    node_classification_fundefs link_prediction_callees node_classification_callees
    no_own_calls which_sequence_calls training_import_bindings try_counts
  by blast

theorem functions_sequence_library_calls_witness:
  "map fst (nb_fundefs node_classification) = [''__init__'', ''forward'']
 \<and> list_all (\<lambda>(n, b). \<not> list_ex (own_call node_classification) (callees b))
      (nb_fundefs node_classification)
 \<and> length (try_stmts walkthrough) = 1"
proof -
  have f: "map fst (nb_fundefs node_classification) = [''__init__'', ''forward'']"
    using functions_sequence_library_calls
      [THEN conjunct2, THEN conjunct2, THEN conjunct2, THEN conjunct1]
    by simp
  have "\<forall>nb \<in> set repository. \<forall>(n, b) \<in> set (nb_fundefs nb).
       \<not> list_ex (own_call nb) (callees b)"
    by (rule functions_sequence_library_calls
          [THEN conjunct2, THEN conjunct2, THEN conjunct2, THEN conjunct2, THEN conjunct2,
           THEN conjunct2, THEN conjunct1])
  then have "\<forall>(n, b) \<in> set (nb_fundefs node_classification).
       \<not> list_ex (own_call node_classification) (callees b)"
    by (simp add: repository_def)
  then have o: "list_all (\<lambda>(n, b). \<not> list_ex (own_call node_classification) (callees b))
      (nb_fundefs node_classification)"
    unfolding list_all_iff .
  have "map (\<lambda>nb. length (try_stmts nb)) repository = [1, 1, 1]"
    by (rule functions_sequence_library_calls
          [THEN conjunct2, THEN conjunct2, THEN conjunct2, THEN conjunct2, THEN conjunct2,
           THEN conjunct2, THEN conjunct2, THEN conjunct2, THEN conjunct2, THEN conjunct2])
  then have t: "length (try_stmts walkthrough) = 1"
    by (simp add: repository_def)
  from f o t show ?thesis by blast
qed

end
